theory Spec2Isabelle
  imports Complex_Main "HOL-Library.Word"
begin

unbundle bit_operations_syntax

section \<open>Protocol constants of rt73.py\<close>

definition channel_record_size :: nat where "channel_record_size = 32"
definition zone_record_size :: nat where "zone_record_size = 32"
definition contact_record_size :: nat where "contact_record_size = 16"
definition message_record_size :: nat where "message_record_size = 40"
definition rx_group_record_size :: nat where "rx_group_record_size = 210"
definition scan_list_record_size :: nat where "scan_list_record_size = 216"

definition channel_count_address :: nat where "channel_count_address = 0x1391"
definition contact_count_address :: nat where "contact_count_address = 0x1393"
definition zone_count_address :: nat where "zone_count_address = 0x138F"

definition contact_start_address :: nat where "contact_start_address = 0x1B400"
definition rx_group_start_address :: nat where "rx_group_start_address = 0xE6BF"
definition scan_list_start_address :: nat where "scan_list_start_address = 0x13CF"

definition message_block_1_start_addr :: nat where "message_block_1_start_addr = 0xFAE"
definition message_block_1_count :: nat where "message_block_1_count = 15"
definition message_block_2_start_addr :: nat where "message_block_2_start_addr = 0x12B"
definition message_block_2_count :: nat where "message_block_2_count = 85"

definition aprs_dmr_channel_start_address :: nat where
  "aprs_dmr_channel_start_address = 0xE4B"

section \<open>Layout planner\<close>

text \<open>
  Both \<open>decompileCodeplug\<close> and \<open>compileCodeplug\<close> size the contact block with the same
  two statements, written out in each function:
  \<^verbatim>\<open>
    contact_block_size = num_contacts * contact_record_size
    if contact_block_size %1024 != 0:
        contact_block_size += 1024 - (contact_block_size%1024)
    if (contact_block_size//1024)%2 == 0:
        contact_block_size = contact_block_size + 1024
  \<close>
  \<open>pad_1k\<close> is the first \<open>if\<close>, \<open>pad_odd\<close> the second.
\<close>

definition pad_1k :: "nat \<Rightarrow> nat" where
  "pad_1k s = (if s mod 1024 \<noteq> 0 then s + (1024 - s mod 1024) else s)"

definition pad_odd :: "nat \<Rightarrow> nat" where
  "pad_odd s = (if (s div 1024) mod 2 = 0 then s + 1024 else s)"

definition decompile_contact_block_size :: "nat \<Rightarrow> nat" where
  "decompile_contact_block_size num_contacts =
     pad_odd (pad_1k (num_contacts * contact_record_size))"

definition compile_contact_block_size :: "nat \<Rightarrow> nat" where
  "compile_contact_block_size num_contacts =
     pad_odd (pad_1k (num_contacts * contact_record_size))"

text \<open>
  The decoder aligns the zone start once more to 1024 bytes; the encoder does not.
\<close>

definition decompile_zone_start_address :: "nat \<Rightarrow> nat" where
  "decompile_zone_start_address num_contacts =
     (let zone_start_address = contact_start_address + decompile_contact_block_size num_contacts
      in if zone_start_address mod 1024 \<noteq> 0
         then zone_start_address + (1024 - zone_start_address mod 1024)
         else zone_start_address)"

definition compile_zone_start_address :: "nat \<Rightarrow> nat" where
  "compile_zone_start_address num_contacts =
     contact_start_address + compile_contact_block_size num_contacts"

definition channel_start_address :: "nat \<Rightarrow> nat \<Rightarrow> nat" where
  "channel_start_address num_contacts num_zones =
     compile_zone_start_address num_contacts + 32 * num_zones"

definition codeplug_size :: "nat \<Rightarrow> nat \<Rightarrow> nat \<Rightarrow> nat" where
  "codeplug_size num_contacts num_zones num_channels =
     (let s = channel_start_address num_contacts num_zones + num_channels * channel_record_size
      in if s mod 2048 \<noteq> 0 then s + (2048 - s mod 2048) else s)"

section \<open>Python values and primitives\<close>

text \<open>
  Every exception the modelled code can raise is a value.
\<close>

datatype error = KeyError | IndexError | ValueError | OverflowError | UnicodeError
  | TypeError | AttributeError | NameError

text \<open>
  A field value of a document: a JSON string, integer or float. \<open>Flt r\<close> stands for the
  finite float written as the decimal \<open>r\<close>.
\<close>

datatype val = Str string | Num int | Flt rat

type_synonym byte = "8 word"
type_synonym item = "string \<rightharpoonup> val"

definition bind_e :: "error + 'a \<Rightarrow> ('a \<Rightarrow> error + 'b) \<Rightarrow> error + 'b" where
  "bind_e m f = (case m of Inl e \<Rightarrow> Inl e | Inr x \<Rightarrow> f x)"

text \<open>Python's \<open>==\<close> on these values: numbers compare by value, a string only equals a string.\<close>

fun py_eq :: "val \<Rightarrow> val \<Rightarrow> bool" where
  "py_eq (Str a) (Str b) = (a = b)"
| "py_eq (Num a) (Num b) = (a = b)"
| "py_eq (Num a) (Flt b) = (of_int a = b)"
| "py_eq (Flt a) (Num b) = (a = of_int b)"
| "py_eq (Flt a) (Flt b) = (a = b)"
| "py_eq _ _ = False"

text \<open>\<open>item[key]\<close>: KeyError when the key is absent.\<close>

definition getitem :: "item \<Rightarrow> string \<Rightarrow> error + val" where
  "getitem item key = (case item key of None \<Rightarrow> Inl KeyError | Some v \<Rightarrow> Inr v)"

text \<open>\<open>xs[i]\<close> on a list: a negative index counts from the end, out of range raises.\<close>

definition py_nth :: "'a list \<Rightarrow> int \<Rightarrow> error + 'a" where
  "py_nth xs i =
     (if 0 \<le> i \<and> i < int (length xs) then Inr (xs ! nat i)
      else if i < 0 \<and> - int (length xs) \<le> i then Inr (xs ! nat (int (length xs) + i))
      else Inl IndexError)"

text \<open>\<open>xs.index(v)\<close>: position of the first element equal to \<open>v\<close>, ValueError when there is none.\<close>

fun py_index_from :: "nat \<Rightarrow> val list \<Rightarrow> val \<Rightarrow> error + nat" where
  "py_index_from i [] v = Inl ValueError"
| "py_index_from i (x # xs) v = (if py_eq x v then Inr i else py_index_from (Suc i) xs v)"

definition py_index :: "val list \<Rightarrow> val \<Rightarrow> error + nat" where
  "py_index xs v = py_index_from 0 xs v"

text \<open>\<open>xs[a:b]\<close> and \<open>xs[a:b] = v\<close> for \<open>0 \<le> a\<close>, \<open>0 \<le> b\<close>: both bounds are clipped to the length.\<close>

definition py_slice :: "'a list \<Rightarrow> nat \<Rightarrow> nat \<Rightarrow> 'a list" where
  "py_slice xs a b = take (b - a) (drop a xs)"

definition py_slice_assign :: "'a list \<Rightarrow> nat \<Rightarrow> nat \<Rightarrow> 'a list \<Rightarrow> 'a list" where
  "py_slice_assign xs a b v = take a xs @ v @ drop (max a b) xs"

text \<open>\<open>int.from_bytes(bs, byteorder='little')\<close> and \<open>x.to_bytes(length=n, byteorder='little')\<close>.\<close>

fun from_bytes_little :: "byte list \<Rightarrow> nat" where
  "from_bytes_little [] = 0"
| "from_bytes_little (b # bs) = unat b + 256 * from_bytes_little bs"

fun to_bytes_little :: "nat \<Rightarrow> nat \<Rightarrow> byte list" where
  "to_bytes_little 0 x = []"
| "to_bytes_little (Suc n) x = of_nat (x mod 256) # to_bytes_little n (x div 256)"

definition int_to_bytes :: "int \<Rightarrow> nat \<Rightarrow> error + byte list" where
  "int_to_bytes x n =
     (if x < 0 \<or> 256 ^ n \<le> x then Inl OverflowError else Inr (to_bytes_little n (nat x)))"

text \<open>\<open>bs.decode('ascii')\<close>, \<open>s.encode('ascii')\<close> and \<open>s.rstrip("\x00")\<close>.\<close>

definition decode_ascii :: "byte list \<Rightarrow> error + string" where
  "decode_ascii bs =
     (if list_all (\<lambda>b. unat b < 128) bs then Inr (map (\<lambda>b. char_of (unat b)) bs)
      else Inl UnicodeError)"

definition encode_ascii :: "string \<Rightarrow> error + byte list" where
  "encode_ascii s =
     (if list_all (\<lambda>c. (of_char c :: nat) < 128) s then Inr (map (\<lambda>c. of_nat (of_char c)) s)
      else Inl UnicodeError)"

definition rstrip_nul :: "string \<Rightarrow> string" where
  "rstrip_nul s = rev (dropWhile (\<lambda>c. c = CHR 0x00) (rev s))"

text \<open>
  \<open>int(v)\<close>: a float is truncated towards zero; a string is parsed as an optional sign and
  decimal digits (Python also accepts surrounding blanks and underscores between digits,
  which no value of this program carries).
\<close>

definition py_trunc :: "rat \<Rightarrow> int" where
  "py_trunc r = (if 0 \<le> r then \<lfloor>r\<rfloor> else \<lceil>r\<rceil>)"

definition is_digit :: "char \<Rightarrow> bool" where
  "is_digit c = (48 \<le> (of_char c :: nat) \<and> (of_char c :: nat) \<le> 57)"

fun digits_value :: "nat \<Rightarrow> string \<Rightarrow> nat" where
  "digits_value acc [] = acc"
| "digits_value acc (c # cs) = digits_value (10 * acc + (of_char c - 48)) cs"

definition parse_digits :: "string \<Rightarrow> error + nat" where
  "parse_digits s =
     (if s \<noteq> [] \<and> list_all is_digit s then Inr (digits_value 0 s) else Inl ValueError)"

definition int_of_string :: "string \<Rightarrow> error + int" where
  "int_of_string s =
     (case s of
        [] \<Rightarrow> Inl ValueError
      | c # cs \<Rightarrow>
          if c = CHR ''-'' then bind_e (parse_digits cs) (\<lambda>n. Inr (- int n))
          else if c = CHR ''+'' then bind_e (parse_digits cs) (\<lambda>n. Inr (int n))
          else bind_e (parse_digits s) (\<lambda>n. Inr (int n)))"

fun py_int :: "val \<Rightarrow> error + int" where
  "py_int (Num n) = Inr n"
| "py_int (Flt r) = Inr (py_trunc r)"
| "py_int (Str s) = int_of_string s"

text \<open>\<open>str(n)\<close> for a natural number and \<open>s.zfill(w)\<close> for a string without sign.\<close>

fun str_nat :: "nat \<Rightarrow> string" where
  "str_nat n =
     (if n < 10 then [char_of (48 + n)] else str_nat (n div 10) @ [char_of (48 + n mod 10)])"

definition zfill :: "nat \<Rightarrow> string \<Rightarrow> string" where
  "zfill w s = replicate (w - length s) (CHR ''0'') @ s"

section \<open>Field schema model and record codec (class Parser)\<close>

text \<open>
  A definition is \<open>[kind, offset, width or mask, ...]\<close>. The optional pair of a MaskNum is
  its decode lambda (applied to the masked byte) and its encode lambda followed by \<open>int\<close>
  (applied to the document value).
\<close>

datatype fdef =
    Bitmask nat nat "(nat \<times> string) list"
  | String nat nat
  | Number nat nat
  | MaskNum nat nat "((int \<Rightarrow> int) \<times> (val \<Rightarrow> error + int)) option"

type_synonym definitions = "(string \<times> fdef) list"

text \<open>
  \<open>Parser.fromBytes\<close>. A Bitmask value absent from its enum prints a warning and yields
  the empty string; the warning itself is not part of the result.
\<close>

fun decode_field :: "fdef \<Rightarrow> byte list \<Rightarrow> error + val" where
  "decode_field (Bitmask off msk enum) bytes =
     (if off < length bytes
      then (case map_of enum (unat (bytes ! off) AND msk) of
              Some name \<Rightarrow> Inr (Str name)
            | None \<Rightarrow> Inr (Str []))
      else Inl IndexError)"
| "decode_field (String off len) bytes =
     bind_e (decode_ascii (py_slice bytes off (off + len))) (\<lambda>s. Inr (Str (rstrip_nul s)))"
| "decode_field (Number off len) bytes =
     Inr (Num (int (from_bytes_little (py_slice bytes off (off + len)))))"
| "decode_field (MaskNum off msk tr) bytes =
     (if off < length bytes
      then (let v = int (unat (bytes ! off) AND msk)
            in case tr of None \<Rightarrow> Inr (Num v) | Some (dec, enc) \<Rightarrow> Inr (Num (dec v)))
      else Inl IndexError)"

fun fromBytes_loop :: "definitions \<Rightarrow> byte list \<Rightarrow> item \<Rightarrow> error + item" where
  "fromBytes_loop [] bytes data = Inr data"
| "fromBytes_loop ((key, dfn) # rest) bytes data =
     bind_e (decode_field dfn bytes) (\<lambda>v. fromBytes_loop rest bytes (data(key \<mapsto> v)))"

definition fromBytes :: "definitions \<Rightarrow> byte list \<Rightarrow> error + item" where
  "fromBytes definitions bytes = fromBytes_loop definitions bytes Map.empty"

text \<open>
  \<open>Parser.toBytes\<close>. \<open>data[off] |= k\<close> reads the byte first (IndexError), then stores the
  disjunction, which a bytearray refuses outside \<open>range(256)\<close> (ValueError).
\<close>

definition or_byte :: "byte list \<Rightarrow> nat \<Rightarrow> int \<Rightarrow> error + byte list" where
  "or_byte data off k =
     (if off < length data
      then (let v = uint (data ! off) OR k
            in if 0 \<le> v \<and> v < 256 then Inr (data[off := word_of_int v]) else Inl ValueError)
      else Inl IndexError)"

fun bitmask_loop :: "(nat \<times> string) list \<Rightarrow> byte list \<Rightarrow> nat \<Rightarrow> item \<Rightarrow> string
    \<Rightarrow> error + byte list" where
  "bitmask_loop [] data off item key = Inr data"
| "bitmask_loop ((k, v) # rest) data off item key =
     bind_e (getitem item key) (\<lambda>x.
       if py_eq (Str v) x
       then bind_e (or_byte data off (int k)) (\<lambda>data'. bitmask_loop rest data' off item key)
       else bitmask_loop rest data off item key)"

fun write_bytes :: "byte list \<Rightarrow> nat \<Rightarrow> byte list \<Rightarrow> error + byte list" where
  "write_bytes data off [] = Inr data"
| "write_bytes data off (b # bs) =
     (if off < length data then write_bytes (data[off := b]) (Suc off) bs else Inl IndexError)"

fun encode_field :: "fdef \<Rightarrow> byte list \<Rightarrow> item \<Rightarrow> string \<Rightarrow> error + byte list" where
  "encode_field (Bitmask off msk enum) data item key = bitmask_loop enum data off item key"
| "encode_field (String off len) data item key =
     bind_e (getitem item key) (\<lambda>x.
       case x of
         Str s \<Rightarrow> bind_e (encode_ascii s) (\<lambda>encoded_str. write_bytes data off encoded_str)
       | _ \<Rightarrow> Inl AttributeError)"
| "encode_field (Number off len) data item key =
     bind_e (getitem item key) (\<lambda>x.
       case x of
         Num n \<Rightarrow> bind_e (int_to_bytes n len) (\<lambda>bs. Inr (py_slice_assign data off (off + len) bs))
       | _ \<Rightarrow> Inl AttributeError)"
| "encode_field (MaskNum off msk tr) data item key =
     (if off < length data
      then bind_e (getitem item key) (\<lambda>x.
             bind_e (case tr of None \<Rightarrow> py_int x | Some (dec, enc) \<Rightarrow> enc x) (\<lambda>n.
               or_byte data off (n AND int msk)))
      else Inl IndexError)"

fun toBytes :: "byte list \<Rightarrow> definitions \<Rightarrow> item \<Rightarrow> error + byte list" where
  "toBytes data [] item = Inr data"
| "toBytes data ((key, dfn) # rest) item =
     bind_e (encode_field dfn data item key) (\<lambda>data'. toBytes data' rest item)"

section \<open>Lookup tables and schemas\<close>

text \<open>The CTCSS tones (floats) and the DCS codes (integers), in the order of the source.\<close>

definition CTCSS_Tones :: "val list" where
  "CTCSS_Tones = [
     Flt 62.5, Flt 67.0, Flt 69.3, Flt 71.9, Flt 74.4, Flt 77.0, Flt 79.7, Flt 82.5,
     Flt 85.4, Flt 88.5, Flt 91.5, Flt 94.8, Flt 97.4, Flt 100.0, Flt 103.5, Flt 107.2,
     Flt 110.9, Flt 114.8, Flt 118.8, Flt 123.0, Flt 127.3, Flt 131.8, Flt 136.5, Flt 141.3,
     Flt 146.2, Flt 151.4, Flt 156.7, Flt 159.8, Flt 162.2, Flt 165.5, Flt 167.9, Flt 171.3,
     Flt 173.8, Flt 177.3, Flt 179.9, Flt 183.5, Flt 186.2, Flt 189.9, Flt 192.8, Flt 196.6,
     Flt 199.5, Flt 203.5, Flt 206.5, Flt 210.7, Flt 218.1, Flt 225.7, Flt 229.1, Flt 233.6,
     Flt 241.8, Flt 250.3, Flt 254.1]"

definition DCS_Codes :: "val list" where
  "DCS_Codes = [
     Num 17, Num 23, Num 25, Num 26, Num 31, Num 32, Num 36, Num 43, Num 47, Num 50,
     Num 51, Num 53, Num 54, Num 65, Num 71, Num 72, Num 73, Num 74, Num 114, Num 115,
     Num 116, Num 122, Num 125, Num 131, Num 132, Num 134, Num 143, Num 145, Num 152, Num 155,
     Num 156, Num 162, Num 165, Num 172, Num 174, Num 205, Num 212, Num 223, Num 225, Num 226,
     Num 243, Num 244, Num 245, Num 246, Num 251, Num 252, Num 255, Num 261, Num 263, Num 265,
     Num 266, Num 271, Num 274, Num 306, Num 311, Num 315, Num 325, Num 331, Num 332, Num 343,
     Num 346, Num 351, Num 356, Num 364, Num 365, Num 371, Num 411, Num 412, Num 413, Num 423,
     Num 431, Num 432, Num 445, Num 446, Num 452, Num 454, Num 455, Num 462, Num 464, Num 465,
     Num 466, Num 503, Num 506, Num 516, Num 523, Num 526, Num 532, Num 546, Num 565, Num 606,
     Num 612, Num 624, Num 627, Num 631, Num 632, Num 645, Num 646, Num 654, Num 662, Num 664,
     Num 703, Num 712, Num 723, Num 731, Num 732, Num 734, Num 743, Num 754]"

text \<open>
  The encode lambdas of the MaskNum fields, each followed by the \<open>int\<close> that \<open>toBytes\<close>
  applies. \<open>enc_arith f\<close> is an arithmetic lambda: its float arithmetic is taken over the
  rationals, which agrees with the floats on the integers a document carries; on a string
  the arithmetic raises TypeError. \<open>enc_shl4\<close> is \<open>lambda x: x<<4\<close>, defined on integers
  only.
\<close>

definition enc_arith :: "(rat \<Rightarrow> rat) \<Rightarrow> val \<Rightarrow> error + int" where
  "enc_arith f x =
     (case x of
        Num n \<Rightarrow> Inr (py_trunc (f (of_int n)))
      | Flt r \<Rightarrow> Inr (py_trunc (f r))
      | Str s \<Rightarrow> Inl TypeError)"

definition enc_shl4 :: "val \<Rightarrow> error + int" where
  "enc_shl4 x = (case x of Num n \<Rightarrow> Inr (push_bit 4 n) | _ \<Rightarrow> Inl TypeError)"

text \<open>
  The schemas, one association list per dictionary of the source, in insertion order
  (the order \<open>for key in definitions\<close> visits them). No key occurs twice in a schema.
\<close>

definition Button_IDs :: "(nat \<times> string) list" where
  "Button_IDs = [
     (0x00, ''UNDEFINED''),
     (0x01, ''HI_LO_POWER''),
     (0x02, ''BACKLIGHT_TOGGLE''),
     (0x03, ''KEYLOCK_TOGGLE''),
     (0x04, ''VOX''),
     (0x05, ''ZONE_SWITCH''),
     (0x06, ''SCAN''),
     (0x07, ''SCAN_MODE_TOGGLE''),
     (0x08, ''RPTR_TALKAROUND''),
     (0x09, ''EMERGENCY_ALARM''),
     (0x0A, ''ENCRYPTION_TOGGLE''),
     (0x0B, ''CONTACTS''),
     (0x0C, ''SMS''),
     (0x0D, ''RADIO_REVIVE''),
     (0x0E, ''RADIO_DETECTION''),
     (0x0F, ''RADIO_KILL''),
     (0x10, ''REMOTE_MONITOR''),
     (0x11, ''MONITOR''),
     (0x12, ''PERMANENT_MONITOR''),
     (0x13, ''TONEBURST_1750HZ''),
     (0x31, ''DTMF_TOGGLE''),
     (0x34, ''ROAM_TOGGLE''),
     (0x1B, ''GPS_TOGGLE''),
     (0x28, ''MENU''),
     (0x37, ''UP''),
     (0x38, ''DOWN''),
     (0x39, ''BACK''),
     (0x3A, ''DQT_QT''),
     (0x3B, ''A_B_TOGGLE''),
     (0x3C, ''VOL''),
     (0x3D, ''VFO''),
     (0x3E, ''MANDATORY_MONITOR''),
     (0x3F, ''DUAL_WATCH_TOGGLE'')]"

definition dev_info :: definitions where
  "dev_info = [
     (''Factory Number'', String 0x00 16),
     (''Serial Number'', String 0x10 16),
     (''Model Number'', String 0x20 16),
     (''FW Version'', String 0x30 31),
     (''Frequency range'', String 0x50 16),
     (''Update date'', String 0x60 16),
     (''Firmware ID'', String 0x70 16)]"

definition basic_parameters :: definitions where
  "basic_parameters = [
     (''Radio name'', String 0x80 10),
     (''DMR ID'', Number 0x90 3),
     (''Language'', Bitmask 0x95 0x10 [(0x00, ''Chinese''), (0x10, ''English'')]),
     (''TimeoutTimer'', Number 0x134F 1),
     (''Busy channel lockout'', Bitmask 0xA6 0x80 [(0x00, ''Off''), (0x80, ''On'')]),
     (''VOX'', Bitmask 0xA6 0x40 [(0x00, ''Off''), (0x40, ''On'')]),
     (''VOX sensitivity'', MaskNum 0xA6 0x0F (Some ((\<lambda>x. x + 1), enc_arith (\<lambda>x. x - 1)))),
     (''Scan mode'', Bitmask 0x137D 0x03 [(0x00, ''CO''), (0x01, ''TO''), (0x02, ''SE'')]),
     (''End tone types'', Bitmask 0x1381 0x03 [(0x00, ''55Hz''), (0x01, (''120'' @ [CHR 0x27])), (0x02, ''180''), (0x03, ''240'')]),
     (''Squelch A level'', MaskNum 0x93 0x0F None),
     (''Squelch B level'', MaskNum 0x93 0xF0 (Some ((\<lambda>x. drop_bit 4 x), enc_shl4))),
     (''Backlight'', Bitmask 0x95 0x28 [(0x00, ''Off''), (0x08, ''On''), (0x20, ''Auto'')]),
     (''Keylock'', Bitmask 0x95 0x44 [(0x00, ''Off''), (0x04, ''Auto''), (0x40, ''Manual''), (0x44, ''Manual & Auto'')]),
     (''Roaming'', Bitmask 0x137B 0x01 [(0x00, ''Off''), (0x01, ''On'')]),
     (''Roaming mode'', Bitmask 0x1375 0x03 [(0x00, ''Auto''), (0x01, ''Manual''), (0x02, ''Strong RSSI Priority'')]),
     (''RSSI set'', MaskNum 0x1376 0xFF (Some ((\<lambda>x. - 90 - x), enc_arith (\<lambda>x. - 1 * x - 90)))),
     (''Connect check timer'', MaskNum 0x1377 0xFF None),
     (''Repeater check timer'', MaskNum 0x1378 0xFF None),
     (''Connect timer'', MaskNum 0x1379 0x09 (Some ((\<lambda>x. x + 1), enc_arith (\<lambda>x. x - 1)))),
     (''Record set'', Bitmask 0x1380 0x03 [(0x00, ''None''), (0x01, ''TX''), (0x02, ''RX''), (0x03, ''TX/RX'')])]"

definition common_menu_parameters :: definitions where
  "common_menu_parameters = [
     (''Contact list'', Bitmask 0xAE 0x01 [(0x00, ''Off''), (0x01, ''On'')]),
     (''New contact'', Bitmask 0xAE 0x02 [(0x00, ''Off''), (0x02, ''On'')]),
     (''Manual dial'', Bitmask 0xAE 0x04 [(0x00, ''Off''), (0x04, ''On'')]),
     (''Ham contacts'', Bitmask 0xAE 0x08 [(0x00, ''Off''), (0x08, ''On'')]),
     (''Ham groups'', Bitmask 0xAE 0x10 [(0x00, ''Off''), (0x10, ''On'')]),
     (''Radio check'', Bitmask 0xBA 0x01 [(0x00, ''Off''), (0x01, ''On'')]),
     (''Call alert'', Bitmask 0xBA 0x02 [(0x00, ''Off''), (0x02, ''On'')]),
     (''Radio monitor'', Bitmask 0xBA 0x04 [(0x00, ''Off''), (0x04, ''On'')]),
     (''Radio disable'', Bitmask 0xBA 0x08 [(0x00, ''Off''), (0x08, ''On'')]),
     (''Radio enable'', Bitmask 0xBA 0x10 [(0x00, ''Off''), (0x10, ''On'')]),
     (''SMS write'', Bitmask 0xAF 0x01 [(0x00, ''Off''), (0x01, ''On'')]),
     (''SMS quick msg'', Bitmask 0xAF 0x02 [(0x00, ''Off''), (0x02, ''On'')]),
     (''SMS inbox'', Bitmask 0xAF 0x04 [(0x00, ''Off''), (0x04, ''On'')]),
     (''SMS outbox'', Bitmask 0xAF 0x08 [(0x00, ''Off''), (0x08, ''On'')]),
     (''SMS drafts'', Bitmask 0xAF 0x10 [(0x00, ''Off''), (0x10, ''On'')]),
     (''Call log outgoing'', Bitmask 0xB0 0x01 [(0x00, ''Off''), (0x01, ''On'')]),
     (''Call log received'', Bitmask 0xB0 0x02 [(0x00, ''Off''), (0x02, ''On'')]),
     (''Call log missed'', Bitmask 0xB0 0x04 [(0x00, ''Off''), (0x04, ''On'')]),
     (''Scan on/off'', Bitmask 0xB1 0x01 [(0x00, ''Off''), (0x01, ''On'')]),
     (''Scan list'', Bitmask 0xB1 0x02 [(0x00, ''Off''), (0x02, ''On'')]),
     (''Scan mode'', Bitmask 0xB1 0x04 [(0x00, ''Off''), (0x04, ''On'')]),
     (''Roam on/off'', Bitmask 0xB1 0x08 [(0x00, ''Off''), (0x08, ''On'')]),
     (''Scan running on/off'', Bitmask 0x10 0x10 [(0x00, ''Off''), (0x10, ''On'')]),
     (''Zone list on/off'', Bitmask 0xB2 0x01 [(0x00, ''Off''), (0x01, ''On'')]),
     (''Language'', Bitmask 0xB3 0x01 [(0x00, ''Off''), (0x01, ''On'')]),
     (''Keylock'', Bitmask 0xB3 0x02 [(0x00, ''Off''), (0x02, ''On'')]),
     (''Backlight'', Bitmask 0xB3 0x04 [(0x00, ''Off''), (0x04, ''On'')]),
     (''LEDs'', Bitmask 0xB3 0x08 [(0x00, ''Off''), (0x08, ''On'')]),
     (''Display mode'', Bitmask 0xB3 0x10 [(0x00, ''Off''), (0x10, ''On'')]),
     (''Vox'', Bitmask 0xB3 0x20 [(0x00, ''Off''), (0x20, ''On'')]),
     (''Channel sw'', Bitmask 0xB3 0x40 [(0x00, ''Off''), (0x40, ''On'')]),
     (''Factory reset'', Bitmask 0xB3 0x80 [(0x00, ''Off''), (0x80, ''On'')]),
     (''Local repeat'', Bitmask 0xBC 0x01 [(0x00, ''Off''), (0x01, ''On'')]),
     (''ToT'', Bitmask 0xB5 0x01 [(0x00, ''Off''), (0x01, ''On'')]),
     (''Power set'', Bitmask 0xB5 0x02 [(0x00, ''Off''), (0x02, ''On'')]),
     (''Repeat set'', Bitmask 0xB5 0x04 [(0x00, ''Off''), (0x04, ''On'')]),
     (''Sleep mode'', Bitmask 0xB5 0x08 [(0x00, ''Off''), (0x08, ''On'')]),
     (''Squelch level'', Bitmask 0xB5 0x10 [(0x00, ''Off''), (0x10, ''On'')]),
     (''Wide/Narrow band'', Bitmask 0xB5 0x20 [(0x00, ''Off''), (0x20, ''On'')]),
     (''Busy channel lockout'', Bitmask 0xB5 0x40 [(0x00, ''Off''), (0x40, ''On'')]),
     (''Signalling'', Bitmask 0xB5 0x80 [(0x00, ''Off''), (0x80, ''On'')]),
     (''End tone types'', Bitmask 0xBD 0x01 [(0x00, ''Off''), (0x01, ''On'')]),
     (''Enc level'', Bitmask 0xB4 0x01 [(0x00, ''Off''), (0x01, ''On'')]),
     (''Profiles'', Bitmask 0xB6 0x01 [(0x00, ''Off''), (0x01, ''On'')]),
     (''Keytone'', Bitmask 0xB6 0x02 [(0x00, ''Off''), (0x02, ''On'')]),
     (''Power tone'', Bitmask 0xB6 0x04 [(0x00, ''Off''), (0x04, ''On'')]),
     (''Msg tone'', Bitmask 0xB6 0x08 [(0x00, ''Off''), (0x08, ''On'')]),
     (''Private call tone'', Bitmask 0xB6 0x10 [(0x00, ''Off''), (0x10, ''On'')]),
     (''Group call tone'', Bitmask 0xB6 0x20 [(0x00, ''Off''), (0x20, ''On'')]),
     (''Call tone'', Bitmask 0xB6 0x40 [(0x00, ''Off''), (0x40, ''On'')]),
     (''Power on tone'', Bitmask 0xB6 0x80 [(0x00, ''Off''), (0x80, ''On'')]),
     (''GPS'', Bitmask 0xB7 0x01 [(0x00, ''Off''), (0x01, ''On'')]),
     (''Torch'', Bitmask 0xB7 0x02 [(0x00, ''Off''), (0x02, ''On'')]),
     (''FM radio'', Bitmask 0xB7 0x04 [(0x00, ''Off''), (0x04, ''On'')]),
     (''Time'', Bitmask 0xB7 0x08 [(0x00, ''Off''), (0x08, ''On'')]),
     (''DTMF'', Bitmask 0xB7 0x10 [(0x00, ''Off''), (0x10, ''On'')]),
     (''Speaker handmic'', Bitmask 0xB7 0x20 [(0x00, ''Off''), (0x20, ''On'')]),
     (''APRS'', Bitmask 0xB7 0x40 [(0x00, ''Off''), (0x40, ''On'')]),
     (''Record set'', Bitmask 0xB8 0x01 [(0x00, ''Off''), (0x01, ''On'')]),
     (''Record list'', Bitmask 0xB8 0x02 [(0x00, ''Off''), (0x02, ''On'')]),
     (''Record clear'', Bitmask 0xB8 0x04 [(0x00, ''Off''), (0x04, ''On'')]),
     (''Record space'', Bitmask 0xB8 0x08 [(0x00, ''Off''), (0x08, ''On'')]),
     (''Radio ID'', Bitmask 0xB9 0x01 [(0x00, ''Off''), (0x01, ''On'')]),
     (''RX group list'', Bitmask 0xB9 0x02 [(0x00, ''Off''), (0x02, ''On'')]),
     (''Channel contact'', Bitmask 0xB9 0x04 [(0x00, ''Off''), (0x04, ''On'')]),
     (''Version'', Bitmask 0xB9 0x08 [(0x00, ''Off''), (0x08, ''On'')]),
     (''VFO'', Bitmask 0xBB 0x01 [(0x00, ''Off''), (0x01, ''On'')])]"

definition prompt_tone_parameters :: definitions where
  "prompt_tone_parameters = [
     (''Profiles'', Bitmask 0xA7 0x01 [(0x00, ''Standard''), (0x01, ''Silent'')]),
     (''SMS Prompt'', MaskNum 0xA8 0x0F None),
     (''Private call Tone'', MaskNum 0xA9 0x05 None),
     (''Group call Tone'', MaskNum 0xAA 0x05 None),
     (''Key tone'', Bitmask 0xAB 0x80 [(0x00, ''Off''), (0x80, ''On'')]),
     (''Key tone vol'', MaskNum 0xAB 0x0F None),
     (''Low bat alert tone'', Bitmask 0xAC 0x80 [(0x00, ''Off''), (0x80, ''On'')]),
     (''Low bat alert vol'', MaskNum 0xAC 0x0F None),
     (''Call hang up'', Bitmask 0x12d8 0x01 [(0x00, ''Silent''), (0x01, ''Prompt Tone'')]),
     (''Boot ringtone'', Bitmask 0x95 0x02 [(0x00, ''Off''), (0x02, ''On'')]),
     (''Roaming restart prompt'', MaskNum 0x1383 0x0F None),
     (''Repeater selected prompt'', MaskNum 0x1383 0x0F None)]"

definition indicator_parameters :: definitions where
  "indicator_parameters = [
     (''All'', Bitmask 0xAD 0x10 [(0x10, ''On''), (0x00, ''Off'')]),
     (''Tx'', Bitmask 0xAD 0x08 [(0x08, ''On''), (0x00, ''Off'')]),
     (''Rx'', Bitmask 0xAD 0x04 [(0x04, ''On''), (0x00, ''Off'')]),
     (''Scanning'', Bitmask 0xAD 0x02 [(0x02, ''On''), (0x00, ''Off'')]),
     (''Low battery'', Bitmask 0xAD 0x01 [(0x01, ''On''), (0x00, ''Off'')])]"

definition button_preset_parameters :: definitions where
  "button_preset_parameters = [
     (''LongPressDuration'', Bitmask 0xC1 0xFF [(0x00, ''0.5''), (0x01, ''1.0''), (0x02, ''1.5''), (0x03, ''2.0''), (0x04, ''2.5''), (0x05, ''3.0''), (0x06, ''3.5''), (0x07, ''4.0''), (0x08, ''4.5''), (0x09, ''5.0'')]),
     (''P1 LongPress'', Bitmask 0xC2 0xFF Button_IDs),
     (''P1 ShortPress'', Bitmask 0xC3 0xFF Button_IDs),
     (''P2 LongPress'', Bitmask 0xC4 0xFF Button_IDs),
     (''P2 ShortPress'', Bitmask 0xC5 0xFF Button_IDs),
     (''P3 LongPress'', Bitmask 0xC6 0xFF Button_IDs),
     (''P3 ShortPress'', Bitmask 0xC7 0xFF Button_IDs),
     (''P4 LongPress'', Bitmask 0xC8 0xFF Button_IDs),
     (''P4 ShortPress'', Bitmask 0xC9 0xFF Button_IDs),
     (''P5 LongPress'', Bitmask 0xCA 0xFF Button_IDs),
     (''P5 ShortPress'', Bitmask 0xCB 0xFF Button_IDs),
     (''P6 LongPress'', Bitmask 0xCC 0xFF Button_IDs),
     (''P6 ShortPress'', Bitmask 0xCD 0xFF Button_IDs),
     (''P7 LongPress'', Bitmask 0x1385 0xFF Button_IDs),
     (''P7 ShortPress'', Bitmask 0x1386 0xFF Button_IDs)]"

definition mic_gain_parameters :: definitions where
  "mic_gain_parameters = [
     (''Mic gain 1'', Bitmask 0xA4 0x80 [(0x80, ''On''), (0x00, ''Off'')]),
     (''Mic gain 1 setting'', MaskNum 0xA4 0x07 (Some ((\<lambda>x. x * 4), enc_arith (\<lambda>x. x / 4)))),
     (''Mic gain 2'', Bitmask 0xA5 0x80 [(0x80, ''On''), (0x00, ''Off'')]),
     (''Mic gain 2 setting'', MaskNum 0xA5 0x1F None)]"

definition dmr_parameters :: definitions where
  "dmr_parameters = [
     (''Remote monitor duration'', MaskNum 0xFAC 0xFF (Some ((\<lambda>x. 10 + x * 10), enc_arith (\<lambda>x. x / 10 - 1)))),
     (''Remote monitor decode'', Bitmask 0xFAD 0x80 [(0x00, ''Off''), (0x80, ''On'')]),
     (''Remote kill decode'', Bitmask 0xFAD 0x40 [(0x00, ''Off''), (0x40, ''On'')]),
     (''Radio detection decode'', Bitmask 0xFAD 0x20 [(0x00, ''Off''), (0x20, ''On'')]),
     (''Radio revive decode'', Bitmask 0xFAD 0x10 [(0x00, ''Off''), (0x10, ''On'')]),
     (''Call alert'', Bitmask 0xFAD 0x08 [(0x00, ''Off''), (0x08, ''On'')]),
     (''Group call hang time'', MaskNum 0x1350 0x0F (Some ((\<lambda>x. x * 500), enc_arith (\<lambda>x. x / 500)))),
     (''Private call hang time'', MaskNum 0x1351 0x0F (Some ((\<lambda>x. x * 500), enc_arith (\<lambda>x. x / 500)))),
     (''Import delay'', MaskNum 0x1370 0xFF (Some ((\<lambda>x. x * 10), enc_arith (\<lambda>x. x / 10)))),
     (''DTMF duration (on-time)'', MaskNum 0x1371 0xFF (Some ((\<lambda>x. x * 10), enc_arith (\<lambda>x. x / 10)))),
     (''DTMF duration (off-time)'', MaskNum 0x1372 0xFF (Some ((\<lambda>x. x * 10), enc_arith (\<lambda>x. x / 10)))),
     (''DTMF volume (local)'', MaskNum 0x1373 0x0F None),
     (''DTMF On/off'', Bitmask 0x1363 0x01 [(0x00, ''Off''), (0x01, ''On'')]),
     (''GPS On/off'', Bitmask 0x137A 0x01 [(0x00, ''Off''), (0x01, ''On'')]),
     (''GPS Interval'', MaskNum 0x1353 0xFF None),
     (''GPS Channel group ID'', Number 0x1354 2),
     (''GPS Channel channel ID'', Number 0x1356 2)]"

definition aprs_parameters :: definitions where
  "aprs_parameters = [
     (''Manual TX interval'', Number 0xE8B 1),
     (''Auto TX interval'', MaskNum 0xE8C 0xFF (Some ((\<lambda>x. x * 30), enc_arith (\<lambda>x. x / 30)))),
     (''Beacon'', Bitmask 0xE8E 0x01 [(0x00, ''FIXED_LOCATION''), (0x01, ''GPS_LOCATION'')]),
     (''LatNS'', Bitmask 0xE8F 0x01 [(0x00, ''North''), (0x01, ''South'')]),
     (''Lat Degrees'', Number 0xE91 4),
     (''LongEW'', Bitmask 0xE90 0x01 [(0x00, ''East''), (0x01, ''West'')]),
     (''Long Degrees'', Number 0xE95 4),
     (''AX25 TX Freq'', Number 0xE99 4),
     (''AX25 TX Power'', Bitmask 0xEA1 0x01 [(0x00, ''LOW''), (0x01, ''HIGH'')]),
     (''AX25 QT/DQT'', Number 0xE9D 2),
     (''AX25 APRS Tone'', Bitmask 0xEA2 0x01 [(0x00, ''OFF''), (0x01, ''ON'')]),
     (''AX25 TX Delay'', MaskNum 0xE9F 0xFF (Some ((\<lambda>x. x * 20), enc_arith (\<lambda>x. x / 20)))),
     (''AX25 Prewave time'', MaskNum 0xEA0 0xFF (Some ((\<lambda>x. x * 10), enc_arith (\<lambda>x. x / 10)))),
     (''AX25 Your Callsign'', String 0xEAB 6),
     (''AX25 Your SSID'', Number 0xEA4 1),
     (''AX25 Dest Callsign'', String 0xEA5 6),
     (''AX25 Dest SSID'', Number 0xEA3 1),
     (''AX25 APRS Symbol Table'', Number 0xEB1 1),
     (''AX25 APRS Map Icon'', Number 0xEB2 1),
     (''AX25 APRS Signal Path'', String 0xEB3 20),
     (''AX25 Your Sending Text'', String 0xEC7 61)]"

definition aprs_dmr_record_parameters :: definitions where
  "aprs_dmr_record_parameters = [
     (''Zone ID'', Number 0x00 2),
     (''Channel ID'', Number 0x02 2),
     (''Call Type'', Bitmask 0x07 0x04 [(0x00, ''PRIVATE''), (0x04, ''GROUP'')]),
     (''PTT'', Bitmask 0x07 0x08 [(0x00, ''OFF''), (0x08, ''ON'')]),
     (''Report Slot'', Bitmask 0x07 0x03 [(0x00, ''CURRENT''), (0x01, ''TS1''), (0x02, ''TS2'')]),
     (''APRS TG'', Number 0x04 3)]"

definition contact_parameters :: definitions where
  "contact_parameters = [
     (''ID'', Number 0x00 2),
     (''Name'', String 0x03 10),
     (''DMR ID'', Number 0x0D 3),
     (''Type'', Bitmask 0x02 0xFF [(0x04, ''Group''), (0x05, ''Private''), (0x06, ''All Call''), (0x07, ''No-Address Call''), (0x08, ''RawData''), (0x09, ''Define Data''), (0x0A, ''SPDATA'')])]"

definition scan_list_info :: definitions where
  "scan_list_info = [
     (''Name'', String 0x00 10),
     (''Talkback'', Bitmask 0x0B 0x20 [(0x00, ''Off''), (0x20, ''On'')]),
     (''Scan TX Mode'', Bitmask 0x0B 0x0F [(0x00, ''Current Channel''), (0x04, ''Last Operated Channel''), (0x08, ''Appointed Channel'')]),
     (''Appointed channel group ID'', Number 0x0C 2),
     (''Appointed channel channel ID'', Number 0x0E 2)]"

definition rx_group_info :: definitions where
  "rx_group_info = [
     (''Name'', String 0x00 10)]"

definition zone_info :: definitions where
  "zone_info = [
     (''ID'', Number 0x00 2),
     (''Name'', String 0x03 10)]"

definition channel_info :: definitions where
  "channel_info = [
     (''ID'', Number 0x00 2),
     (''Type'', Bitmask 0x14 0xC0 [(0x00, ''ANALOG''), (0x40, ''DIGITAL''), (0x80, ''D_A_TX_A''), (0xC0, ''D_A_TX_D'')]),
     (''Name'', String 0x02 10),
     (''Rx Freq'', Number 0x0C 4),
     (''Tx Freq'', Number 0x10 4),
     (''Tx Power'', Bitmask 0x14 0x20 [(0x00, ''LOW''), (0x20, ''HIGH'')]),
     (''Rx only'', Bitmask 0x19 0x10 [(0x00, ''OFF''), (0x10, ''ON'')]),
     (''Alarm'', Bitmask 0x14 0x08 [(0x00, ''OFF''), (0x08, ''ON'')]),
     (''Prompt'', Bitmask 0x14 0x08 [(0x00, ''OFF''), (0x08, ''ON'')]),
     (''PCT'', Bitmask 0x14 0x02 [(0x00, ''PATCS''), (0x02, ''OACSU'')]),
     (''TS Rx'', Bitmask 0x14 0x01 [(0x00, ''TS1''), (0x01, ''TS2'')]),
     (''TS Tx'', Bitmask 0x1D 0x02 [(0x00, ''TS1''), (0x02, ''TS2'')]),
     (''RX CC'', MaskNum 0x15 0x0F None),
     (''TX CC'', MaskNum 0x1D 0xF0 (Some ((\<lambda>x. drop_bit 4 x), enc_shl4))),
     (''MSG Type'', Bitmask 0x15 0x10 [(0x00, ''UNCONFIRMED''), (0x10, ''CONFIRMED'')]),
     (''TX Policy'', Bitmask 0x15 0xC0 [(0x00, ''IMPOLITE''), (0x40, ''POLITE_TO_CC''), (0x60, ''POLITE_TO_ALL'')]),
     (''Group call list'', Number 0x17 1),
     (''Scan List ID'', Number 0x18 1),
     (''Default Contact ID'', Number 0x1E 1),
     (''EAS'', Bitmask 0x19 0x0F [(0x00, ''OFF''), (0x01, ''A1''), (0x02, ''A2''), (0x03, ''A3''), (0x04, ''A4'')]),
     (''Bandwidth'', Bitmask 0x14 0x10 [(0x10, ''25KHz''), (0x00, ''12.5KHz'')]),
     (''Tone Type Tx'', Bitmask 0x1A 0x0C [(0x00, ''OFF''), (0x04, ''CTCSS''), (0x08, ''DCS''), (0x0C, ''DCS Invert'')]),
     (''Tone Tx'', Number 0x1C 1),
     (''Tone Type Rx'', Bitmask 0x1A 0x03 [(0x00, ''OFF''), (0x01, ''CTCSS''), (0x02, ''DCS''), (0x03, ''DCS Invert'')]),
     (''Tone Rx'', Number 0x1B 1),
     (''APRS Channel'', MaskNum 0x1F 0xF0 (Some ((\<lambda>x. drop_bit 4 x), enc_shl4)))]"

definition tson_info :: definitions where
  "tson_info = [
     (''TS Rx ON'', Bitmask 0x1D 0x01 [(0x00, ''ON''), (0x01, ''OFF'')]),
     (''TS Tx ON'', Bitmask 0x1D 0x04 [(0x00, ''ON''), (0x04, ''OFF'')])]"

section \<open>Tone resolution and the channel record\<close>

text \<open>\<open>table[v]\<close> with a document value as index: only an integer indexes a list.\<close>

definition py_getitem :: "'a list \<Rightarrow> val \<Rightarrow> error + 'a" where
  "py_getitem xs v = (case v of Num i \<Rightarrow> py_nth xs i | _ \<Rightarrow> Inl TypeError)"

text \<open>
  Decode, inside the channel loop of \<open>decompileCodeplug\<close>:
  \<^verbatim>\<open>
    if channel["Tone Type Tx"] == "CTCSS":
        channel["Tone Tx"] = CTCSS_Tones[channel["Tone Tx"]]
    elif channel["Tone Type Tx"] != "OFF": # It's DCS or DCS Invert
        channel["Tone Tx"] = DCS_Codes[channel["Tone Tx"]]
  \<close>
  and the same for Rx. \<open>index_to_tone\<close> is this statement for either pair of keys.
\<close>

definition index_to_tone :: "item \<Rightarrow> string \<Rightarrow> string \<Rightarrow> error + item" where
  "index_to_tone channel type_key tone_key =
     bind_e (getitem channel type_key) (\<lambda>tone_type.
       if py_eq tone_type (Str ''CTCSS'')
       then bind_e (getitem channel tone_key) (\<lambda>i.
              bind_e (py_getitem CTCSS_Tones i) (\<lambda>t. Inr (channel(tone_key \<mapsto> t))))
       else if \<not> py_eq tone_type (Str ''OFF'')
       then bind_e (getitem channel tone_key) (\<lambda>i.
              bind_e (py_getitem DCS_Codes i) (\<lambda>t. Inr (channel(tone_key \<mapsto> t))))
       else Inr channel)"

text \<open>
  Encode, inside the channel loop of \<open>compileCodeplug\<close>: the same statement with
  \<open>CTCSS_Tones.index(...)\<close> and \<open>DCS_Codes.index(...)\<close>.
\<close>

definition tone_to_index :: "item \<Rightarrow> string \<Rightarrow> string \<Rightarrow> error + item" where
  "tone_to_index channel type_key tone_key =
     bind_e (getitem channel type_key) (\<lambda>tone_type.
       if py_eq tone_type (Str ''CTCSS'')
       then bind_e (getitem channel tone_key) (\<lambda>t.
              bind_e (py_index CTCSS_Tones t) (\<lambda>i. Inr (channel(tone_key \<mapsto> Num (int i)))))
       else if \<not> py_eq tone_type (Str ''OFF'')
       then bind_e (getitem channel tone_key) (\<lambda>t.
              bind_e (py_index DCS_Codes t) (\<lambda>i. Inr (channel(tone_key \<mapsto> Num (int i)))))
       else Inr channel)"

text \<open>
  The body of the channel loop of \<open>decompileCodeplug\<close>, from the 32-byte slice
  \<open>channel_data\<close> to the channel of the document. \<open>tempTSON_INFO\<close> is parsed with
  \<open>tson_info\<close>, forced to OFF when the two frequencies differ, and then overrides the
  two timeslot fields.
\<close>

definition tson_override :: "item \<Rightarrow> item \<Rightarrow> error + item" where
  "tson_override channel tempTSON_INFO =
     bind_e (getitem channel ''Rx Freq'') (\<lambda>rx.
     bind_e (getitem channel ''Tx Freq'') (\<lambda>tx.
       let t1 = (if \<not> py_eq rx tx
                 then tempTSON_INFO(''TS Rx ON'' \<mapsto> Str ''OFF'', ''TS Tx ON'' \<mapsto> Str ''OFF'')
                 else tempTSON_INFO)
       in bind_e (getitem t1 ''TS Rx ON'') (\<lambda>rx_on.
          let c1 = (if py_eq rx_on (Str ''ON'') then channel(''TS Rx'' \<mapsto> Str ''ON'') else channel)
          in bind_e (getitem t1 ''TS Tx ON'') (\<lambda>tx_on.
             Inr (if py_eq tx_on (Str ''ON'') then c1(''TS Tx'' \<mapsto> Str ''ON'') else c1)))))"

definition decompile_channel :: "byte list \<Rightarrow> error + item" where
  "decompile_channel channel_data =
     bind_e (fromBytes channel_info channel_data) (\<lambda>channel.
     bind_e (fromBytes tson_info channel_data) (\<lambda>tempTSON_INFO.
     bind_e (tson_override channel tempTSON_INFO) (\<lambda>c2.
     bind_e (index_to_tone c2 ''Tone Type Tx'' ''Tone Tx'') (\<lambda>c3.
     index_to_tone c3 ''Tone Type Rx'' ''Tone Rx''))))"

text \<open>
  The body of the channel loop of \<open>compileCodeplug\<close>, from the channel of the document
  to its 32-byte record. The debug message is built whatever the debug level, so a
  missing ID or Name or a Name that is no string already fails there.
  \<^verbatim>\<open>
    tempTSON_INFO = {}
    tempTSON_INFO["TS Rx ON"] = "OFF"
    tempTSON_INFO["TS Tx ON"] = "OFF"
    if channel["Rx Freq"] != channel["Tx Freq"]:
        tempTSON_INFO["TS Rx ON"] = "OFF"
        tempTSON_INFO["TS Tx ON"] = "OFF"
    if channel["TS Rx"] == "ON":
        tempTSON_INFO["TS Rx ON"] = "ON"
    if channel["TS Tx"] == "ON":
        tempTSON_INFO["TS Tx ON"] = "ON"
  \<close>
\<close>

definition compile_tson :: "item \<Rightarrow> error + item" where
  "compile_tson channel =
     (let t0 = [''TS Rx ON'' \<mapsto> Str ''OFF'', ''TS Tx ON'' \<mapsto> Str ''OFF'']
      in bind_e (getitem channel ''Rx Freq'') (\<lambda>rx.
         bind_e (getitem channel ''Tx Freq'') (\<lambda>tx.
           let t1 = (if \<not> py_eq rx tx
                     then t0(''TS Rx ON'' \<mapsto> Str ''OFF'', ''TS Tx ON'' \<mapsto> Str ''OFF'')
                     else t0)
           in bind_e (getitem channel ''TS Rx'') (\<lambda>ts_rx.
              let t2 = (if py_eq ts_rx (Str ''ON'') then t1(''TS Rx ON'' \<mapsto> Str ''ON'') else t1)
              in bind_e (getitem channel ''TS Tx'') (\<lambda>ts_tx.
                 Inr (if py_eq ts_tx (Str ''ON'') then t2(''TS Tx ON'' \<mapsto> Str ''ON'') else t2))))))"

definition compile_channel :: "item \<Rightarrow> error + byte list" where
  "compile_channel channel =
     bind_e (getitem channel ''ID'') (\<lambda>_.
     bind_e (getitem channel ''Name'') (\<lambda>name.
       case name of
         Str _ \<Rightarrow>
           bind_e (tone_to_index channel ''Tone Type Tx'' ''Tone Tx'') (\<lambda>c1.
           bind_e (tone_to_index c1 ''Tone Type Rx'' ''Tone Rx'') (\<lambda>c2.
           bind_e (compile_tson c2) (\<lambda>tempTSON_INFO.
           bind_e (toBytes (replicate channel_record_size 0) channel_info c2) (\<lambda>channel_record.
           toBytes channel_record tson_info tempTSON_INFO))))
       | _ \<Rightarrow> Inl TypeError))"

section \<open>The APRS QT/DQT field\<close>

text \<open>
  \<open>str(v)\<close> for the entries of the two tables: an integer in decimal, a float with the
  one decimal digit all CTCSS entries have.
\<close>

definition str_val :: "val \<Rightarrow> string" where
  "str_val v =
     (case v of
        Num n \<Rightarrow> str_nat (nat n)
      | Flt r \<Rightarrow> str_nat (nat \<lfloor>r\<rfloor>) @ ''.'' @ str_nat (nat \<lfloor>r * 10\<rfloor> mod 10)
      | Str s \<Rightarrow> s)"

text \<open>
  Decode, after \<open>fromBytes(aprs_parameters, data)\<close>:
  \<^verbatim>\<open>
    if 159 <= codeplug["APRS"]["AX25 QT/DQT"] <= 267: #DCS Invert
        ... = "D" + str(DCS_Codes[(... -160)]).zfill(3) + "I"
    elif 52 <= ... <= 158: #DCS Normal
        ... = "D" + str(DCS_Codes[(... -53)]).zfill(3) + "N"
    elif 1 <= ... <= 51: #CTCSS
        ... = str(CTCSS_Tones[...])
    else:
        ... = "Off"
  \<close>
\<close>

definition decode_qt_dqt :: "item \<Rightarrow> error + item" where
  "decode_qt_dqt aprs =
     bind_e (getitem aprs ''AX25 QT/DQT'') (\<lambda>x.
       case x of
         Num v \<Rightarrow>
           if 159 \<le> v \<and> v \<le> 267
           then bind_e (py_nth DCS_Codes (v - 160)) (\<lambda>c.
                  Inr (aprs(''AX25 QT/DQT'' \<mapsto> Str (''D'' @ zfill 3 (str_val c) @ ''I''))))
           else if 52 \<le> v \<and> v \<le> 158
           then bind_e (py_nth DCS_Codes (v - 53)) (\<lambda>c.
                  Inr (aprs(''AX25 QT/DQT'' \<mapsto> Str (''D'' @ zfill 3 (str_val c) @ ''N''))))
           else if 1 \<le> v \<and> v \<le> 51
           then bind_e (py_nth CTCSS_Tones v) (\<lambda>t.
                  Inr (aprs(''AX25 QT/DQT'' \<mapsto> Str (str_val t))))
           else Inr (aprs(''AX25 QT/DQT'' \<mapsto> Str ''Off''))
       | _ \<Rightarrow> Inl TypeError)"

text \<open>
  Encode, before \<open>toBytes(template, aprs_parameters, codeplug["APRS"])\<close>:
  \<^verbatim>\<open>
    if codeplug["APRS"]["AX25 QT/DQT"] == "Off":
        ... = 0
    elif codeplug["APRS"]["AX25 QT/DQT"].endswith("I"):
        ... = DCS_Codes.index(int(str(...).replace('D', '').replace('I', '')))+160
    elif codeplug["APRS"]["AX25 QT/DQT"].endswith("N"):
        ... = DCS_Codes.index(int(str(...).replace('D', '').replace('N', '')))+53
    else:
        ... = CTCSS_Tones.index(codeplug["APRS"]["AX25 QT/DQT"])
  \<close>
  Only a string has \<open>endswith\<close>.
\<close>

definition endswith :: "string \<Rightarrow> char \<Rightarrow> bool" where
  "endswith s c = (s \<noteq> [] \<and> last s = c)"

definition remove_char :: "char \<Rightarrow> string \<Rightarrow> string" where
  "remove_char c s = filter (\<lambda>d. d \<noteq> c) s"

definition encode_qt_dqt :: "item \<Rightarrow> error + item" where
  "encode_qt_dqt aprs =
     bind_e (getitem aprs ''AX25 QT/DQT'') (\<lambda>x.
       if py_eq x (Str ''Off'') then Inr (aprs(''AX25 QT/DQT'' \<mapsto> Num 0))
       else case x of
         Str s \<Rightarrow>
           if endswith s (CHR ''I'')
           then bind_e (int_of_string (remove_char (CHR ''I'') (remove_char (CHR ''D'') s))) (\<lambda>c.
                bind_e (py_index DCS_Codes (Num c)) (\<lambda>i.
                  Inr (aprs(''AX25 QT/DQT'' \<mapsto> Num (int i + 160)))))
           else if endswith s (CHR ''N'')
           then bind_e (int_of_string (remove_char (CHR ''N'') (remove_char (CHR ''D'') s))) (\<lambda>c.
                bind_e (py_index DCS_Codes (Num c)) (\<lambda>i.
                  Inr (aprs(''AX25 QT/DQT'' \<mapsto> Num (int i + 53)))))
           else bind_e (py_index CTCSS_Tones x) (\<lambda>i.
                  Inr (aprs(''AX25 QT/DQT'' \<mapsto> Num (int i))))
       | _ \<Rightarrow> Inl AttributeError)"

section \<open>Quick messages\<close>

text \<open>
  The address of logical message \<open>i\<close>, as the decode loop and the encode loop each compute it.
\<close>

definition decode_message_address :: "nat \<Rightarrow> nat" where
  "decode_message_address i =
     (if i < message_block_1_count
      then message_block_1_start_addr + i * message_record_size
      else message_block_2_start_addr + (i - message_block_1_count) * message_record_size)"

definition encode_message_address :: "nat \<Rightarrow> nat" where
  "encode_message_address i =
     (if i < message_block_1_count
      then message_block_1_start_addr + (i * message_record_size)
      else message_block_2_start_addr + ((i - message_block_1_count) * message_record_size))"

text \<open>
  The decode loop:
  \<^verbatim>\<open>
    for i in range(message_block_1_count + message_block_2_count):
        ...
        try:
            msg_str = data[start_of_message: start_of_message + message_record_size]
                          .decode('ascii').rstrip("\x00")
        except:
            debugMsg(1, "Skipped message number " + str(i) + " containing non-ascii text")
        if msg_str != "":
            codeplug["Quick messages"].append(msg_str)
  \<close>
  \<open>msg_str\<close> is a local variable that lives across the iterations: \<open>None\<close> until the
  first successful decode, and left as it was when the decode raises. The state of the
  loop is \<open>msg_str\<close>, the messages appended so far and the indices reported as skipped.
\<close>

fun quick_messages_loop :: "byte list \<Rightarrow> nat list \<Rightarrow> string option \<Rightarrow> string list \<Rightarrow> nat list
    \<Rightarrow> error + (string list \<times> nat list)" where
  "quick_messages_loop data [] msg_str msgs skipped = Inr (msgs, skipped)"
| "quick_messages_loop data (i # rest) msg_str msgs skipped =
     (let start_of_message = decode_message_address i
      in case decode_ascii
                (py_slice data start_of_message (start_of_message + message_record_size)) of
           Inr s \<Rightarrow>
             (let m = rstrip_nul s
              in quick_messages_loop data rest (Some m)
                   (if m \<noteq> [] then msgs @ [m] else msgs) skipped)
         | Inl e \<Rightarrow>
             (case msg_str of
                None \<Rightarrow> Inl NameError
              | Some m \<Rightarrow>
                  quick_messages_loop data rest (Some m)
                    (if m \<noteq> [] then msgs @ [m] else msgs) (skipped @ [i])))"

definition decode_quick_messages :: "byte list \<Rightarrow> error + (string list \<times> nat list)" where
  "decode_quick_messages data =
     quick_messages_loop data [0..<message_block_1_count + message_block_2_count] None [] []"

text \<open>
  The encode loop truncates each message to the record size and writes it at its address.
\<close>

fun write_messages :: "byte list \<Rightarrow> nat \<Rightarrow> string list \<Rightarrow> error + byte list" where
  "write_messages template i [] = Inr template"
| "write_messages template i (m # rest) =
     (let start_address = encode_message_address i
      in bind_e (encode_ascii (take message_record_size m)) (\<lambda>encoded_str.
           write_messages
             (py_slice_assign template start_address (start_address + length encoded_str)
                encoded_str)
             (Suc i) rest))"

section \<open>The document and compileCodeplug\<close>

text \<open>
  The document that \<open>json.loads\<close> returns, with the shape \<open>compileCodeplug\<close> reads: nine
  singleton sections, each a dictionary of field values, and the repeated collections.
  A scan list is its dictionary of fields with its \<open>"Selected channels"\<close>, a list of
  \<open>{"Group": g, "Channel": c}\<close>; an RX group its fields with its \<open>"Contacts"\<close>; a zone its
  fields with its \<open>"Channels"\<close>. The \<open>"DMR channels"\<close> of the APRS section are kept beside it.
\<close>

record scan_list =
  scan_fields :: item
  selected_channels :: "(int \<times> int) list"

record rx_group =
  group_fields :: item
  group_contacts :: "int list"

record zone =
  zone_fields :: item
  zone_channels :: "item list"

record codeplug =
  Device_info :: item
  Basic_parameters :: item
  Common_menu_parameters :: item
  Prompt_Tone :: item
  Indicators :: item
  Preset_buttons :: item
  Mic_gain :: item
  DMR_Service :: item
  APRS :: item
  APRS_DMR_channels :: "item list"
  Quick_messages :: "string list"
  Contacts :: "item list"
  Scan_lists :: "scan_list list"
  RX_groups :: "rx_group list"
  Zones :: "zone list"

text \<open>\<open>data[a:a+2] = x.to_bytes(length=2, byteorder='little')\<close>.\<close>

definition write_int16 :: "byte list \<Rightarrow> nat \<Rightarrow> int \<Rightarrow> error + byte list" where
  "write_int16 data a x =
     bind_e (int_to_bytes x 2) (\<lambda>bs. Inr (py_slice_assign data a (a + 2) bs))"

text \<open>
  The eight \<open>toBytes\<close> calls on the whole image, the conversion of the APRS QT/DQT value
  and the \<open>toBytes\<close> call for the APRS section, in the order of the source.
\<close>

definition write_sections :: "codeplug \<Rightarrow> byte list \<Rightarrow> error + byte list" where
  "write_sections doc template =
     bind_e (toBytes template dev_info (Device_info doc)) (\<lambda>t1.
     bind_e (toBytes t1 basic_parameters (Basic_parameters doc)) (\<lambda>t2.
     bind_e (toBytes t2 common_menu_parameters (Common_menu_parameters doc)) (\<lambda>t3.
     bind_e (toBytes t3 prompt_tone_parameters (Prompt_Tone doc)) (\<lambda>t4.
     bind_e (toBytes t4 indicator_parameters (Indicators doc)) (\<lambda>t5.
     bind_e (toBytes t5 button_preset_parameters (Preset_buttons doc)) (\<lambda>t6.
     bind_e (toBytes t6 mic_gain_parameters (Mic_gain doc)) (\<lambda>t7.
     bind_e (toBytes t7 dmr_parameters (DMR_Service doc)) (\<lambda>t8.
     bind_e (encode_qt_dqt (APRS doc)) (\<lambda>aprs'.
     toBytes t8 aprs_parameters aprs')))))))))"

text \<open>
  Each loop over a collection builds a fresh zero record, encodes into it and assigns it to
  its slice of the image; \<open>count\<close> is the loop's counter.
\<close>

fun write_aprs_dmr_channels :: "byte list \<Rightarrow> nat \<Rightarrow> item list \<Rightarrow> error + byte list" where
  "write_aprs_dmr_channels template aprs_dmr_record_count [] = Inr template"
| "write_aprs_dmr_channels template aprs_dmr_record_count (record # rest) =
     bind_e (toBytes (replicate 8 0) aprs_dmr_record_parameters record) (\<lambda>aprs_dmr_record.
       write_aprs_dmr_channels
         (py_slice_assign template
            (aprs_dmr_channel_start_address + 8 * aprs_dmr_record_count)
            (aprs_dmr_channel_start_address + 8 * (aprs_dmr_record_count + 1))
            aprs_dmr_record)
         (aprs_dmr_record_count + 1) rest)"

fun write_contacts :: "byte list \<Rightarrow> nat \<Rightarrow> item list \<Rightarrow> error + byte list" where
  "write_contacts template count [] = Inr template"
| "write_contacts template count (contact # rest) =
     bind_e (toBytes (replicate contact_record_size 0) contact_parameters contact)
       (\<lambda>contact_record.
       write_contacts
         (py_slice_assign template
            (contact_start_address + contact_record_size * count)
            (contact_start_address + contact_record_size * (count + 1))
            contact_record)
         (count + 1) rest)"

fun write_pairs :: "byte list \<Rightarrow> nat \<Rightarrow> (int \<times> int) list \<Rightarrow> error + byte list" where
  "write_pairs scan_list_record i [] = Inr scan_list_record"
| "write_pairs scan_list_record i ((g, c) # rest) =
     bind_e (int_to_bytes g 2) (\<lambda>gb.
       let r1 = py_slice_assign scan_list_record (16 + i * 4) (16 + i * 4 + 2) gb
       in bind_e (int_to_bytes c 2) (\<lambda>cb.
            write_pairs (py_slice_assign r1 (16 + i * 4 + 2) (16 + i * 4 + 4) cb) (Suc i) rest))"

fun write_scan_lists :: "byte list \<Rightarrow> nat \<Rightarrow> scan_list list \<Rightarrow> error + byte list" where
  "write_scan_lists template count [] = Inr template"
| "write_scan_lists template count (sl # rest) =
     bind_e (toBytes (replicate scan_list_record_size 0) scan_list_info (scan_fields sl)) (\<lambda>r0.
     bind_e (write_pairs r0 0 (selected_channels sl)) (\<lambda>scan_list_record.
       write_scan_lists
         (py_slice_assign template
            (scan_list_start_address + scan_list_record_size * count)
            (scan_list_start_address + scan_list_record_size * (count + 1))
            scan_list_record)
         (count + 1) rest))"

fun write_ids :: "byte list \<Rightarrow> nat \<Rightarrow> int list \<Rightarrow> error + byte list" where
  "write_ids group_record i [] = Inr group_record"
| "write_ids group_record i (c # rest) =
     bind_e (int_to_bytes c 2) (\<lambda>cb.
       write_ids (py_slice_assign group_record (10 + i * 2) (10 + (i + 1) * 2) cb) (Suc i) rest)"

fun write_rx_groups :: "byte list \<Rightarrow> nat \<Rightarrow> rx_group list \<Rightarrow> error + byte list" where
  "write_rx_groups template count [] = Inr template"
| "write_rx_groups template count (grp # rest) =
     bind_e (toBytes (replicate rx_group_record_size 0) rx_group_info (group_fields grp)) (\<lambda>r0.
     bind_e (write_ids r0 0 (group_contacts grp)) (\<lambda>group_record.
       write_rx_groups
         (py_slice_assign template
            (rx_group_start_address + rx_group_record_size * count)
            (rx_group_start_address + rx_group_record_size * (count + 1))
            group_record)
         (count + 1) rest))"

text \<open>
  The zone loop. The channel offset of the zone at position \<open>count\<close> is the number of
  zones plus one plus the channels of the zones before it; the debug message needs the
  zone's Name to be a string.
\<close>

definition zone_channel_offset :: "zone list \<Rightarrow> nat \<Rightarrow> nat" where
  "zone_channel_offset all_zones count =
     length all_zones + 1 + sum_list (map (\<lambda>z. length (zone_channels z)) (take count all_zones))"

fun write_zones :: "zone list \<Rightarrow> nat \<Rightarrow> byte list \<Rightarrow> nat \<Rightarrow> zone list
    \<Rightarrow> error + byte list" where
  "write_zones all_zones zone_start_address template count [] = Inr template"
| "write_zones all_zones zone_start_address template count (z # rest) =
     (let channel_offset = zone_channel_offset all_zones count
      in bind_e (getitem (zone_fields z) ''Name'') (\<lambda>name.
           case name of
             Str _ \<Rightarrow>
               bind_e (toBytes (replicate zone_record_size 0) zone_info (zone_fields z)) (\<lambda>r0.
               bind_e (write_int16 r0 0x0D (int channel_offset)) (\<lambda>r1.
               bind_e (write_int16 r1 0x0F (int (length (zone_channels z)))) (\<lambda>zone_record.
                 write_zones all_zones zone_start_address
                   (py_slice_assign template
                      (zone_start_address + zone_record_size * count)
                      (zone_start_address + zone_record_size * (count + 1))
                      zone_record)
                   (count + 1) rest)))
           | _ \<Rightarrow> Inl TypeError))"

text \<open>
  The channel loop runs over the channels of all zones in document order, with one counter.
\<close>

fun write_channels :: "byte list \<Rightarrow> nat \<Rightarrow> nat \<Rightarrow> item list \<Rightarrow> error + byte list" where
  "write_channels template chan_start count [] = Inr template"
| "write_channels template chan_start count (channel # rest) =
     bind_e (compile_channel channel) (\<lambda>channel_record.
       write_channels
         (py_slice_assign template
            (chan_start + channel_record_size * count)
            (chan_start + channel_record_size * (count + 1))
            channel_record)
         chan_start (count + 1) rest)"

text \<open>
  \<open>compileCodeplug\<close>. When the final length differs from the planned size the source prints
  a message and calls \<open>sys.exit(4)\<close>; building the second line of the message adds a string
  and an integer, so the fault surfaces as a TypeError before the exit is reached.
\<close>

definition num_channels_of :: "codeplug \<Rightarrow> nat" where
  "num_channels_of doc = sum_list (map (\<lambda>z. length (zone_channels z)) (Zones doc))"

definition planned_size :: "codeplug \<Rightarrow> nat" where
  "planned_size doc =
     codeplug_size (length (Contacts doc)) (length (Zones doc)) (num_channels_of doc)"

definition compileCodeplug :: "codeplug \<Rightarrow> error + byte list" where
  "compileCodeplug doc =
     (let num_contacts = length (Contacts doc);
          num_zones = length (Zones doc);
          num_channels = num_channels_of doc;
          zone_start_address = compile_zone_start_address num_contacts;
          chan_start = channel_start_address num_contacts num_zones;
          size = codeplug_size num_contacts num_zones num_channels;
          template = replicate size 0
      in bind_e (write_int16 template zone_count_address (int num_zones)) (\<lambda>t1.
         bind_e (write_int16 t1 contact_count_address (int num_contacts)) (\<lambda>t2.
         bind_e (write_int16 t2 channel_count_address (int num_channels)) (\<lambda>t3.
         bind_e (write_sections doc t3) (\<lambda>t4.
         bind_e (write_aprs_dmr_channels t4 0 (APRS_DMR_channels doc)) (\<lambda>t5.
         bind_e (write_messages t5 0 (Quick_messages doc)) (\<lambda>t6.
         bind_e (write_contacts t6 0 (Contacts doc)) (\<lambda>t7.
         bind_e (write_scan_lists t7 0 (Scan_lists doc)) (\<lambda>t8.
         bind_e (write_rx_groups t8 0 (RX_groups doc)) (\<lambda>t9.
         bind_e (write_zones (Zones doc) zone_start_address t9 0 (Zones doc)) (\<lambda>t10.
         bind_e (write_channels t10 chan_start 0 (concat (map zone_channels (Zones doc)))) (\<lambda>t11.
         if length t11 \<noteq> size then Inl TypeError else Inr t11))))))))))))"

section \<open>Sample inputs\<close>

text \<open>
  A duplex digital channel with every field inside its schema's domain, used to run the
  codec on concrete input.
\<close>

definition sample_channel :: item where
  "sample_channel =
     [''ID'' \<mapsto> Num 1, ''Type'' \<mapsto> Str ''DIGITAL'', ''Name'' \<mapsto> Str ''CH1'',
      ''Rx Freq'' \<mapsto> Num 43900000, ''Tx Freq'' \<mapsto> Num 43000000,
      ''Tx Power'' \<mapsto> Str ''HIGH'', ''Rx only'' \<mapsto> Str ''OFF'', ''Alarm'' \<mapsto> Str ''OFF'',
      ''Prompt'' \<mapsto> Str ''OFF'', ''PCT'' \<mapsto> Str ''PATCS'', ''TS Rx'' \<mapsto> Str ''TS1'',
      ''TS Tx'' \<mapsto> Str ''TS2'', ''RX CC'' \<mapsto> Num 1, ''TX CC'' \<mapsto> Num 1,
      ''MSG Type'' \<mapsto> Str ''UNCONFIRMED'', ''TX Policy'' \<mapsto> Str ''POLITE_TO_CC'',
      ''Group call list'' \<mapsto> Num 0, ''Scan List ID'' \<mapsto> Num 0,
      ''Default Contact ID'' \<mapsto> Num 1, ''EAS'' \<mapsto> Str ''OFF'',
      ''Bandwidth'' \<mapsto> Str ''12.5KHz'', ''Tone Type Tx'' \<mapsto> Str ''OFF'', ''Tone Tx'' \<mapsto> Num 0,
      ''Tone Type Rx'' \<mapsto> Str ''OFF'', ''Tone Rx'' \<mapsto> Num 0, ''APRS Channel'' \<mapsto> Num 0]"

text \<open>
  A 112640-byte image, all zero but for the first quick message \<open>"HI"\<close> at \<open>0xFAE\<close> and
  one byte \<open>0x80\<close>, which is no ASCII, at the start of the second message (\<open>0xFD6\<close>); and
  the same image with the \<open>0x80\<close> in the first message instead.
\<close>

definition image_bad_second_message :: "byte list" where
  "image_bad_second_message =
     replicate 4014 0 @ [0x48, 0x49] @ replicate 38 0 @ [0x80] @ replicate 108585 0"

definition image_bad_first_message :: "byte list" where
  "image_bad_first_message = replicate 4014 0 @ [0x80] @ replicate 108625 0"

text \<open>
  Three 32-byte channel records. The first two carry both forced-on flags as ON (bits
  \<open>0x01\<close> and \<open>0x04\<close> of byte \<open>0x1D\<close> clear) with nominal timeslots TS1 for Rx and TS2 for
  Tx; the first has different Rx and Tx frequencies, the second is simplex. The third is
  the first with Tx tone type DCS (byte \<open>0x1A = 0x08\<close>) and raw Tx tone index 53.
\<close>

definition record_duplex_forced_on :: "byte list" where
  "record_duplex_forced_on =
     [1, 0, 67, 72, 49, 0, 0, 0, 0, 0, 0, 0, 96, 220, 157, 2, 192, 32, 144, 2,
      0x60, 0x41, 0, 0, 0, 0, 0, 0, 0, 0x12, 1, 0]"

definition record_simplex_forced_on :: "byte list" where
  "record_simplex_forced_on =
     [1, 0, 67, 72, 49, 0, 0, 0, 0, 0, 0, 0, 96, 220, 157, 2, 96, 220, 157, 2,
      0x60, 0x41, 0, 0, 0, 0, 0, 0, 0, 0x12, 1, 0]"

definition record_dcs_53 :: "byte list" where
  "record_dcs_53 =
     [1, 0, 67, 72, 49, 0, 0, 0, 0, 0, 0, 0, 96, 220, 157, 2, 192, 32, 144, 2,
      0x60, 0x41, 0, 0, 0, 0, 0x08, 0, 53, 0x12, 1, 0]"

section \<open>Properties of the layout planner\<close>

lemma pad_1k_mod: "pad_1k s mod 1024 = 0"
proof -
  define q r where "q = s div 1024" and "r = s mod 1024"
  have r: "r < 1024" and s: "s = q * 1024 + r"
    by (simp_all add: q_def r_def)
  have "s + (1024 - r) = (q + 1) * 1024"
    using r s by simp
  then have "(s + (1024 - r)) mod 1024 = 0"
    by simp
  then show ?thesis unfolding pad_1k_def r_def by simp
qed

lemma pad_1k_ge: "s \<le> pad_1k s"
proof -
  define r where "r = s mod 1024"
  have "r < 1024" by (simp add: r_def)
  then have "s \<le> (if r \<noteq> 0 then s + (1024 - r) else s)" by arith
  then show ?thesis unfolding pad_1k_def r_def .
qed

lemma pad_odd_div: "pad_odd s div 1024 = (if (s div 1024) mod 2 = 0 then s div 1024 + 1 else s div 1024)"
  unfolding pad_odd_def by simp

lemma pad_odd_mod: "pad_odd s mod 1024 = s mod 1024"
  unfolding pad_odd_def by simp

lemma pad_odd_odd: "(pad_odd s div 1024) mod 2 = 1"
  unfolding pad_odd_div by (simp add: mod_Suc)

lemma pad_odd_ge: "1024 \<le> pad_odd s"
proof (cases "s div 1024 = 0")
  case True
  then show ?thesis unfolding pad_odd_def by simp
next
  case False
  then have "1 \<le> s div 1024" by simp
  then have "1024 * 1 \<le> 1024 * (s div 1024)" by (rule mult_le_mono2)
  also have "\<dots> \<le> s" by simp
  finally have "1024 \<le> s" by simp
  then show ?thesis unfolding pad_odd_def by simp
qed

lemma contact_start_aligned: "contact_start_address mod 1024 = 0"
  by (simp add: contact_start_address_def)

section \<open>Evaluation rules\<close>

text \<open>
  \<open>bind_e\<close> is evaluated from its first argument: the continuation is only entered once
  the first argument is a value.
\<close>

lemma bind_e_Inl [simp]: "bind_e (Inl e) f = Inl e"
  by (simp add: bind_e_def)

lemma bind_e_Inr [simp]: "bind_e (Inr x) f = f x"
  by (simp add: bind_e_def)

lemma bind_e_cong [cong]: "m = m' \<Longrightarrow> bind_e m f = bind_e m' f"
  by simp

lemma bind_e_eq_Inr: "bind_e m f = Inr y \<longleftrightarrow> (\<exists>x. m = Inr x \<and> f x = Inr y)"
  by (cases m) simp_all

lemma to_bytes_little_numeral [simp]:
  "to_bytes_little (numeral k) x =
     of_nat (x mod 256) # to_bytes_little (pred_numeral k) (x div 256)"
  by (simp only: numeral_eq_Suc [of k] to_bytes_little.simps)

lemma replicate_numeral_Cons:
  "replicate (numeral k) x = x # replicate (pred_numeral k) x"
  by (simp only: numeral_eq_Suc [of k] replicate.simps)

lemma list_update_Cons_num [simp]:
  "(x # xs)[numeral k := y] = x # xs[pred_numeral k := y]"
  by (simp only: numeral_eq_Suc [of k] list_update.simps nat.case)

lemmas char_eval = char_of_def bit_Suc_0_iff

lemmas codec_eval =
  char_eval replicate_numeral_Cons getitem_def int_to_bytes_def py_slice_assign_def py_slice_def or_byte_def
  encode_ascii_def decode_ascii_def rstrip_nul_def enc_shl4_def
  py_getitem_def py_nth_def py_index_def fromBytes_def

lemmas channel_eval =
  compile_channel_def decompile_channel_def tone_to_index_def index_to_tone_def
  compile_tson_def tson_override_def channel_record_size_def channel_info_def tson_info_def


section \<open>Lemmas about the quick-message loop\<close>

lemma list_all_replicate: "list_all P (replicate n x) = (n = 0 \<or> P x)"
  by (induction n) auto

lemma char_of_0: "char_of (0::nat) = CHR 0x00"
  by code_simp

lemma dropWhile_replicate_append:
  "P x \<Longrightarrow> dropWhile P (replicate n x @ ys) = dropWhile P ys"
  by (induction n) simp_all

lemma rstrip_nul_blank: "rstrip_nul (replicate n (CHR 0x00)) = []"
  by (simp add: rstrip_nul_def)

lemma decode_ascii_blank: "decode_ascii (replicate n 0) = Inr (replicate n (CHR 0x00))"
  by (simp add: decode_ascii_def list_all_replicate char_of_0)

lemma quick_messages_loop_blank:
  assumes "\<And>i. i \<in> set idxs \<Longrightarrow>
    py_slice data (decode_message_address i) (decode_message_address i + message_record_size)
      = replicate 40 0"
  shows "quick_messages_loop data idxs msg_str msgs skipped = Inr (msgs, skipped)"
  using assms
proof (induction idxs arbitrary: msg_str)
  case Nil
  then show ?case by simp
next
  case (Cons i rest)
  have "py_slice data (decode_message_address i) (decode_message_address i + message_record_size)
      = replicate 40 0"
    using Cons.prems by simp
  moreover have "quick_messages_loop data rest (Some []) msgs skipped = Inr (msgs, skipped)"
    using Cons.IH Cons.prems by simp
  ultimately show ?case
    by (simp add: decode_ascii_blank rstrip_nul_blank)
qed

lemma blank_below:
  "a + 40 \<le> n \<Longrightarrow> py_slice (replicate n 0 @ rest) a (a + 40) = replicate 40 0"
  by (simp add: py_slice_def min_def)

lemma blank_above:
  "n + length mid \<le> a \<Longrightarrow> a + 40 \<le> n + length mid + k \<Longrightarrow>
   py_slice (replicate n 0 @ mid @ replicate k 0) a (a + 40) = replicate 40 0"
  by (simp add: py_slice_def min_def)

lemma message_address_cases:
  "i < 100 \<Longrightarrow> 2 \<le> i \<Longrightarrow>
   decode_message_address i + 40 \<le> 4014
   \<or> (4055 \<le> decode_message_address i \<and> decode_message_address i + 40 \<le> 112640)"
  unfolding decode_message_address_def message_block_1_count_def
    message_block_1_start_addr_def message_block_2_start_addr_def message_record_size_def
  by (simp, arith)

lemma decode_bad_second_message:
  "decode_quick_messages image_bad_second_message = Inr ([''HI'', ''HI''], [1])"
proof -
  have tail: "quick_messages_loop image_bad_second_message [Suc (Suc 0)..<100] ms msgs skipped
      = Inr (msgs, skipped)" for ms msgs skipped
  proof (rule quick_messages_loop_blank)
    fix i assume "i \<in> set [Suc (Suc 0)..<100]"
    then have i: "2 \<le> i" "i < 100" unfolding set_upt by simp_all
    from message_address_cases [OF i(2) i(1)]
    show "py_slice image_bad_second_message (decode_message_address i)
            (decode_message_address i + message_record_size) = replicate 40 0"
    proof
      assume "decode_message_address i + 40 \<le> 4014"
      then show ?thesis
        unfolding image_bad_second_message_def message_record_size_def
        by (rule blank_below)
    next
      assume h: "4055 \<le> decode_message_address i \<and> decode_message_address i + 40 \<le> 112640"
      have "py_slice (replicate 4014 0 @ ([0x48, 0x49] @ replicate 38 0 @ [0x80]) @ replicate 108585 0)
              (decode_message_address i) (decode_message_address i + 40) = replicate 40 0"
        using h by (intro blank_above) simp_all
      then show ?thesis
        by (simp add: image_bad_second_message_def message_record_size_def)
    qed
  qed
  have idx: "[0..<message_block_1_count + message_block_2_count]
      = 0 # Suc 0 # [Suc (Suc 0)..<100]"
  proof -
    have "message_block_1_count + message_block_2_count = 100"
      by (simp add: message_block_1_count_def message_block_2_count_def)
    moreover have "[0..<100] = 0 # [Suc 0..<100]"
      by (rule upt_conv_Cons) simp
    moreover have "[Suc 0..<100] = Suc 0 # [Suc (Suc 0)..<100]"
      by (rule upt_conv_Cons) simp
    ultimately show ?thesis by (simp only:)
  qed
  have s0: "py_slice image_bad_second_message (decode_message_address 0)
              (decode_message_address 0 + message_record_size) = 0x48 # 0x49 # replicate 38 0"
    by (simp add: image_bad_second_message_def py_slice_def decode_message_address_def
        message_block_1_count_def message_block_1_start_addr_def message_record_size_def)
  have s1: "py_slice image_bad_second_message (decode_message_address (Suc 0))
              (decode_message_address (Suc 0) + message_record_size) = 0x80 # replicate 39 0"
    by (simp add: image_bad_second_message_def py_slice_def decode_message_address_def
        message_block_1_count_def message_block_1_start_addr_def message_record_size_def)
  have d0: "decode_ascii (0x48 # 0x49 # replicate 38 0)
      = Inr (CHR ''H'' # CHR ''I'' # replicate 38 (CHR 0x00))"
    by (simp add: decode_ascii_def list_all_replicate char_of_def bit_Suc_0_iff)
  have r0: "rstrip_nul (CHR ''H'' # CHR ''I'' # replicate 38 (CHR 0x00)) = ''HI''"
    by (simp add: rstrip_nul_def dropWhile_replicate_append)
  have d1: "decode_ascii (0x80 # replicate 39 0) = Inl UnicodeError"
    by (simp add: decode_ascii_def)
  show ?thesis
    unfolding decode_quick_messages_def idx
    by (simp add: s0 s1 d0 r0 d1 tail Let_def)
qed

lemma decode_bad_first_message:
  "decode_quick_messages image_bad_first_message = Inl NameError"
proof -
  have idx: "[0..<message_block_1_count + message_block_2_count] = 0 # [Suc 0..<100]"
  proof -
    have "message_block_1_count + message_block_2_count = 100"
      by (simp add: message_block_1_count_def message_block_2_count_def)
    moreover have "[0..<100] = 0 # [Suc 0..<100]"
      by (rule upt_conv_Cons) simp
    ultimately show ?thesis by (simp only:)
  qed
  have s0: "py_slice image_bad_first_message (decode_message_address 0)
              (decode_message_address 0 + message_record_size) = 0x80 # replicate 39 0"
    by (simp add: image_bad_first_message_def py_slice_def decode_message_address_def
        message_block_1_count_def message_block_1_start_addr_def message_record_size_def)
  have d0: "decode_ascii (0x80 # replicate 39 0) = Inl UnicodeError"
    by (simp add: decode_ascii_def)
  show ?thesis
    unfolding decode_quick_messages_def idx
    by (simp add: s0 d0)
qed

section \<open>Lemmas about the record codec\<close>

lemma fromBytes_loop_other:
  "fromBytes_loop defs bytes acc = Inr m \<Longrightarrow> key \<notin> set (map fst defs) \<Longrightarrow> m key = acc key"
proof (induction defs arbitrary: acc)
  case Nil
  then show ?case by simp
next
  case (Cons kd rest)
  obtain k d where kd: "kd = (k, d)" by (cases kd)
  from Cons.prems(1) obtain v where
    v: "decode_field d bytes = Inr v" and
    r: "fromBytes_loop rest bytes (acc(k \<mapsto> v)) = Inr m"
    by (auto simp: kd bind_e_eq_Inr)
  from Cons.prems(2) have "key \<noteq> k" "key \<notin> set (map fst rest)"
    by (auto simp: kd)
  with Cons.IH [OF r] show ?case by simp
qed

lemma fromBytes_loop_field:
  "fromBytes_loop defs bytes acc = Inr m \<Longrightarrow> distinct (map fst defs) \<Longrightarrow>
   (key, d) \<in> set defs \<Longrightarrow> (\<exists>v. decode_field d bytes = Inr v \<and> m key = Some v)"
proof (induction defs arbitrary: acc)
  case Nil
  then show ?case by simp
next
  case (Cons kd rest)
  obtain k d' where kd: "kd = (k, d')" by (cases kd)
  from Cons.prems(1) obtain v where
    v: "decode_field d' bytes = Inr v" and
    r: "fromBytes_loop rest bytes (acc(k \<mapsto> v)) = Inr m"
    by (auto simp: kd bind_e_eq_Inr)
  from Cons.prems(2) have dist: "k \<notin> set (map fst rest)" "distinct (map fst rest)"
    by (simp_all add: kd)
  show ?case
  proof (cases "(key, d) = (k, d')")
    case True
    with fromBytes_loop_other [OF r dist(1)] v show ?thesis by simp
  next
    case False
    with Cons.prems(3) have "(key, d) \<in> set rest" by (auto simp: kd)
    from Cons.IH [OF r dist(2) this] show ?thesis .
  qed
qed

lemma fromBytes_field:
  "fromBytes defs bytes = Inr m \<Longrightarrow> distinct (map fst defs) \<Longrightarrow>
   (key, d) \<in> set defs \<Longrightarrow> (\<exists>v. decode_field d bytes = Inr v \<and> m key = Some v)"
  unfolding fromBytes_def by (rule fromBytes_loop_field)

lemma and_pow2_nat: "(a::nat) AND 2 ^ k = (if bit a k then 2 ^ k else 0)"
  by (rule bit_eqI) (auto simp: bit_and_iff bit_exp_iff)

lemma and_1_cases: "(a::nat) AND 1 = 0 \<or> a AND 1 = 1"
  using and_pow2_nat [of a 0] by (simp split: if_splits)

lemma and_2_cases: "(a::nat) AND 2 = 0 \<or> a AND 2 = 2"
  using and_pow2_nat [of a 1] by (simp split: if_splits)

lemma and_4_cases: "(a::nat) AND 4 = 0 \<or> a AND 4 = 4"
  using and_pow2_nat [of a 2] by (simp split: if_splits)

lemma index_to_tone_other:
  "index_to_tone c tk k = Inr c' \<Longrightarrow> key \<noteq> k \<Longrightarrow> c' key = c key"
  by (auto simp: index_to_tone_def bind_e_eq_Inr split: if_splits)

lemma distinct_channel_info: "distinct (map fst channel_info)"
  by (simp add: channel_info_def)

lemma distinct_tson_info: "distinct (map fst tson_info)"
  by (simp add: tson_info_def)
lemma channel_ts_rx:
  assumes "fromBytes channel_info cd = Inr raw"
  shows "raw ''TS Rx'' = Some (Str ''TS1'') \<or> raw ''TS Rx'' = Some (Str ''TS2'')"
proof -
  have "(''TS Rx'', Bitmask 0x14 0x01 [(0x00, ''TS1''), (0x01, ''TS2'')]) \<in> set channel_info"
    by (simp add: channel_info_def)
  from fromBytes_field [OF assms distinct_channel_info this]
  obtain v where v: "decode_field (Bitmask 0x14 0x01 [(0x00, ''TS1''), (0x01, ''TS2'')]) cd = Inr v"
    and r: "raw ''TS Rx'' = Some v" by blast
  from v and_1_cases [of "unat (cd ! 0x14)"] have "v = Str ''TS1'' \<or> v = Str ''TS2''"
    by (auto split: if_splits)
  with r show ?thesis by simp
qed

lemma channel_ts_tx:
  assumes "fromBytes channel_info cd = Inr raw"
  shows "raw ''TS Tx'' = Some (Str ''TS1'') \<or> raw ''TS Tx'' = Some (Str ''TS2'')"
proof -
  have "(''TS Tx'', Bitmask 0x1D 0x02 [(0x00, ''TS1''), (0x02, ''TS2'')]) \<in> set channel_info"
    by (simp add: channel_info_def)
  from fromBytes_field [OF assms distinct_channel_info this]
  obtain v where v: "decode_field (Bitmask 0x1D 0x02 [(0x00, ''TS1''), (0x02, ''TS2'')]) cd = Inr v"
    and r: "raw ''TS Tx'' = Some v" by blast
  from v and_2_cases [of "unat (cd ! 0x1D)"] have "v = Str ''TS1'' \<or> v = Str ''TS2''"
    by (auto split: if_splits)
  with r show ?thesis by simp
qed

lemma channel_freqs:
  assumes "fromBytes channel_info cd = Inr raw"
  shows "\<exists>a b. raw ''Rx Freq'' = Some (Num a) \<and> raw ''Tx Freq'' = Some (Num b)"
proof -
  have "(''Rx Freq'', Number 0x0C 4) \<in> set channel_info"
    and "(''Tx Freq'', Number 0x10 4) \<in> set channel_info"
    by (simp_all add: channel_info_def)
  from this [THEN fromBytes_field [OF assms distinct_channel_info]]
  show ?thesis by auto
qed

lemma tson_flags:
  assumes "fromBytes tson_info cd = Inr flags"
  shows "flags ''TS Rx ON'' = Some (Str (if unat (cd ! 0x1D) AND 0x01 = 0 then ''ON'' else ''OFF''))"
    and "flags ''TS Tx ON'' = Some (Str (if unat (cd ! 0x1D) AND 0x04 = 0 then ''ON'' else ''OFF''))"
proof -
  have "(''TS Rx ON'', Bitmask 0x1D 0x01 [(0x00, ''ON''), (0x01, ''OFF'')]) \<in> set tson_info"
    by (simp add: tson_info_def)
  from fromBytes_field [OF assms distinct_tson_info this]
  obtain v where v: "decode_field (Bitmask 0x1D 0x01 [(0x00, ''ON''), (0x01, ''OFF'')]) cd = Inr v"
    and r: "flags ''TS Rx ON'' = Some v" by blast
  from v r and_1_cases [of "unat (cd ! 0x1D)"]
  show "flags ''TS Rx ON'' = Some (Str (if unat (cd ! 0x1D) AND 0x01 = 0 then ''ON'' else ''OFF''))"
    by (auto split: if_splits)
  have "(''TS Tx ON'', Bitmask 0x1D 0x04 [(0x00, ''ON''), (0x04, ''OFF'')]) \<in> set tson_info"
    by (simp add: tson_info_def)
  from fromBytes_field [OF assms distinct_tson_info this]
  obtain w where w: "decode_field (Bitmask 0x1D 0x04 [(0x00, ''ON''), (0x04, ''OFF'')]) cd = Inr w"
    and s: "flags ''TS Tx ON'' = Some w" by blast
  from w s and_4_cases [of "unat (cd ! 0x1D)"]
  show "flags ''TS Tx ON'' = Some (Str (if unat (cd ! 0x1D) AND 0x04 = 0 then ''ON'' else ''OFF''))"
    by (auto split: if_splits)
qed

lemma tson_override_result:
  assumes "raw ''Rx Freq'' = Some (Num a)" and "raw ''Tx Freq'' = Some (Num b)"
    and "flags ''TS Rx ON'' = Some (Str frx)" and "flags ''TS Tx ON'' = Some (Str ftx)"
  shows "tson_override raw flags =
           Inr (if a \<noteq> b then raw
                else (if ftx = ''ON''
                      then (if frx = ''ON'' then raw(''TS Rx'' \<mapsto> Str ''ON'') else raw)
                             (''TS Tx'' \<mapsto> Str ''ON'')
                      else (if frx = ''ON'' then raw(''TS Rx'' \<mapsto> Str ''ON'') else raw)))"
  using assms by (simp add: tson_override_def getitem_def Let_def)


lemma encode_number_overflow:
  "item key = Some (Num n) \<Longrightarrow> n < 0 \<or> 256 ^ len \<le> n \<Longrightarrow>
   encode_field (Number off len) data item key = Inl OverflowError"
  by (auto simp: getitem_def int_to_bytes_def)

lemma toBytes_fails_on_field:
  "(key, d) \<in> set defs \<Longrightarrow> (\<And>data. encode_field d data item key = Inl e) \<Longrightarrow>
   \<exists>e'. toBytes data defs item = Inl e'"
proof (induction defs arbitrary: data)
  case Nil
  then show ?case by simp
next
  case (Cons kd rest)
  obtain k d' where kd: "kd = (k, d')" by (cases kd)
  show ?case
  proof (cases "encode_field d' data item k")
    case (Inl e')
    then show ?thesis by (simp add: kd)
  next
    case (Inr data')
    with Cons.prems(2) [of data] have "(key, d) \<noteq> (k, d')" by auto
    with Cons.prems(1) have "(key, d) \<in> set rest" by (auto simp: kd)
    from Cons.IH [OF this Cons.prems(2)] obtain e' where "toBytes data' rest item = Inl e'"
      by blast
    with Inr show ?thesis by (simp add: kd)
  qed
qed

lemma or_byte_in_range:
  assumes "off < length data" and "0 \<le> k" and "k < 256"
  shows "or_byte data off k = Inr (data[off := data ! off OR word_of_int k])"
proof -
  have "uint (data ! off) < 2 ^ 8"
    using uint_bounded [of "data ! off"] by simp
  then have "uint (data ! off) OR k < 2 ^ 8"
    using assms by (intro OR_upper) simp_all
  moreover have "0 \<le> uint (data ! off) OR k"
    using assms by simp
  moreover have "(word_of_int (uint (data ! off) OR k) :: byte) = data ! off OR word_of_int k"
    by (simp add: of_int_or_eq)
  ultimately show ?thesis
    using assms by (simp add: or_byte_def Let_def)
qed

lemma masked_in_range: "msk < 256 \<Longrightarrow> 0 \<le> n AND int msk \<and> n AND int msk < 256"
proof -
  assume "msk < 256"
  have "n AND int msk \<le> int msk" by (rule AND_upper2) simp
  then show ?thesis using \<open>msk < 256\<close> by simp
qed

lemma length_DCS_Codes: "length DCS_Codes = 108"
  by (simp add: DCS_Codes_def)

lemma DCS_Codes_nth_Num: "i < 108 \<Longrightarrow> \<exists>c. DCS_Codes ! i = Num c"
proof -
  assume "i < 108"
  then have "DCS_Codes ! i \<in> set DCS_Codes"
    by (simp add: length_DCS_Codes)
  moreover have "\<forall>v\<in>set DCS_Codes. \<exists>c. v = Num c"
    by (simp add: DCS_Codes_def)
  ultimately show ?thesis by blast
qed

lemma CTCSS_Tones_first: "py_nth CTCSS_Tones 0 = Inr (Flt 62.5)"
  by (simp add: py_nth_def CTCSS_Tones_def)

lemma py_nth_DCS: "0 \<le> i \<Longrightarrow> i < 108 \<Longrightarrow> py_nth DCS_Codes i = Inr (DCS_Codes ! nat i)"
  by (simp add: py_nth_def length_DCS_Codes)


section \<open>Claims about the layout planner\<close>

text \<open>
  C2, as the specification states it, fails: 64 contacts of 16 bytes fill exactly one
  1024-byte unit, an odd count, so neither function adds a unit and the zone block starts
  at \<open>0x1B400 + 1024 = 0x1B800\<close>.
\<close>

theorem parity_fixup_64_counterexample:
  "pad_1k (64 * contact_record_size) div 1024 = 1
   \<and> compile_contact_block_size 64 \<noteq> pad_1k (64 * contact_record_size) + 1024
   \<and> compile_contact_block_size 64 = 1024
   \<and> decompile_contact_block_size 64 = 1024
   \<and> compile_zone_start_address 64 = 0x1B800
   \<and> decompile_zone_start_address 64 = 0x1B800"
  by (simp add: pad_1k_def pad_odd_def compile_contact_block_size_def
      decompile_contact_block_size_def compile_zone_start_address_def
      decompile_zone_start_address_def contact_record_size_def contact_start_address_def)

text \<open>
  C2 (amended): with 64 contacts the padded contact block is one 1024-byte unit, nothing is
  added and the zone block starts at \<open>0x1B800\<close>. For every contact count, when the padded
  contact block occupies an even number of 1024-byte units, one more unit is added, in the
  encoder and in the decoder, and the zone start address is the contact start address
  plus the block with that unit; when the number of units is odd, the block stays as padded.
\<close>

theorem parity_fixup:
  "compile_contact_block_size 64 = 1024
   \<and> compile_zone_start_address 64 = 0x1B800
   \<and> ((pad_1k (n * contact_record_size) div 1024) mod 2 = 0 \<longrightarrow>
         compile_contact_block_size n = pad_1k (n * contact_record_size) + 1024
       \<and> decompile_contact_block_size n = pad_1k (n * contact_record_size) + 1024
       \<and> compile_zone_start_address n
           = contact_start_address + pad_1k (n * contact_record_size) + 1024
       \<and> decompile_zone_start_address n
           = contact_start_address + pad_1k (n * contact_record_size) + 1024)
   \<and> ((pad_1k (n * contact_record_size) div 1024) mod 2 \<noteq> 0 \<longrightarrow>
         compile_contact_block_size n = pad_1k (n * contact_record_size)
       \<and> decompile_contact_block_size n = pad_1k (n * contact_record_size))"
proof -
  have a: "compile_contact_block_size 64 = 1024 \<and> compile_zone_start_address 64 = 0x1B800"
    by (simp add: pad_1k_def pad_odd_def compile_contact_block_size_def
        compile_zone_start_address_def contact_record_size_def contact_start_address_def)
  have m: "(contact_start_address + pad_1k s + 1024) mod 1024 = 0" for s
    using contact_start_aligned pad_1k_mod [of s] by (simp add: mod_eq_0_iff_dvd)
  show ?thesis
    using a m [of "n * contact_record_size"]
    by (simp add: pad_odd_def compile_contact_block_size_def decompile_contact_block_size_def
        compile_zone_start_address_def decompile_zone_start_address_def Let_def add.assoc)
qed

theorem parity_fixup_witness:
  "(pad_1k (65 * contact_record_size) div 1024) mod 2 = 0
   \<and> compile_contact_block_size 65 = 3072
   \<and> decompile_contact_block_size 65 = 3072
   \<and> compile_zone_start_address 65 = 0x1C000
   \<and> decompile_zone_start_address 65 = 0x1C000"
proof -
  have h: "(pad_1k (65 * contact_record_size) div 1024) mod 2 = 0"
    by (simp add: pad_1k_def contact_record_size_def)
  have p: "pad_1k (65 * contact_record_size) = 2048"
    by (simp add: pad_1k_def contact_record_size_def)
  show ?thesis
    using h parity_fixup [of 65] by (simp add: p contact_start_address_def)
qed

text \<open>
  C10: for every contact count, zero included, the contact block is a whole, odd number
  of 1024-byte units and at least one unit; with no contact it is exactly 1024 bytes; and
  the zone block starts strictly after the contact start address \<open>0x1B400\<close>, in the
  encoder and in the decoder alike.
\<close>

theorem contact_block_odd_units:
  "compile_contact_block_size n mod 1024 = 0
   \<and> (compile_contact_block_size n div 1024) mod 2 = 1
   \<and> 1024 \<le> compile_contact_block_size n
   \<and> decompile_contact_block_size n = compile_contact_block_size n
   \<and> compile_contact_block_size 0 = 1024
   \<and> contact_start_address = 0x1B400
   \<and> contact_start_address < compile_zone_start_address n
   \<and> contact_start_address < decompile_zone_start_address n"
proof -
  let ?b = "pad_odd (pad_1k (n * contact_record_size))"
  have b1: "?b mod 1024 = 0"
    by (simp add: pad_odd_mod pad_1k_mod)
  have b2: "(?b div 1024) mod 2 = 1"
    by (rule pad_odd_odd)
  have b3: "1024 \<le> ?b"
    by (rule pad_odd_ge)
  have z: "compile_contact_block_size 0 = 1024"
    by (simp add: compile_contact_block_size_def pad_1k_def pad_odd_def)
  have "(contact_start_address + ?b) mod 1024 = 0"
    using contact_start_aligned b1 by (simp add: mod_eq_0_iff_dvd)
  then have d: "contact_start_address < decompile_zone_start_address n"
    using b3 by (simp add: decompile_zone_start_address_def decompile_contact_block_size_def
        Let_def)
  show ?thesis
    using b1 b2 b3 z d
    by (simp add: compile_contact_block_size_def decompile_contact_block_size_def
        compile_zone_start_address_def contact_start_address_def)
qed

section \<open>Claims about the quick messages\<close>

text \<open>
  C8: the decode loop and the encode loop compute the same address for logical message
  \<open>i\<close>: \<open>0xFAE + i * 40\<close> for \<open>i < 15\<close> and \<open>0x12B + (i - 15) * 40\<close> from 15 on. Messages 14
  and 15 get distinct addresses, and each of the 85 records of the second block ends
  below every record of the first block.
\<close>

theorem message_split_addressing:
  "decode_message_address i = encode_message_address i
   \<and> (i < 15 \<longrightarrow> decode_message_address i = 0xFAE + i * 40)
   \<and> (15 \<le> i \<longrightarrow> decode_message_address i = 0x12B + (i - 15) * 40)
   \<and> decode_message_address 14 \<noteq> decode_message_address 15
   \<and> (i < 15 \<and> 15 \<le> j \<and> j < 100 \<longrightarrow>
        decode_message_address j + message_record_size \<le> decode_message_address i)"
  unfolding decode_message_address_def encode_message_address_def
    message_block_1_count_def message_block_1_start_addr_def message_block_2_start_addr_def
    message_record_size_def
  by (simp, arith)

theorem message_split_addressing_witness:
  "(14::nat) < 15 \<and> (15::nat) \<le> 15 \<and> (15::nat) < 100
   \<and> decode_message_address 14 = 4574 \<and> encode_message_address 14 = 4574
   \<and> decode_message_address 15 = 299 \<and> encode_message_address 15 = 299
   \<and> decode_message_address 15 + message_record_size \<le> decode_message_address 14"
  using message_split_addressing [of 14 15] message_split_addressing [of 15 15]
  by (simp add: message_record_size_def)


text \<open>
  C9 fails on the code. When the bytes of a message are no ASCII, the \<open>except\<close> branch only
  reports the message as skipped; the \<open>if msg_str != ""\<close> that follows still runs, on the
  value \<open>msg_str\<close> kept from the message before. On the image whose first message is
  \<open>"HI"\<close> and whose second message starts with the byte \<open>0x80\<close>, message 1 is reported as
  skipped and \<open>"HI"\<close> enters the document twice. On the image whose first message starts
  with \<open>0x80\<close>, \<open>msg_str\<close> is still unbound and the whole decode ends in a NameError.
\<close>

theorem skipped_message_repeats_previous:
  "decode_quick_messages image_bad_second_message = Inr ([''HI'', ''HI''], [1])
   \<and> decode_quick_messages image_bad_first_message = Inl NameError
   \<and> length image_bad_second_message = 112640
   \<and> length image_bad_first_message = 112640"
proof -
  have "length image_bad_second_message = 112640"
    by (simp add: image_bad_second_message_def)
  moreover have "length image_bad_first_message = 112640"
    by (simp add: image_bad_first_message_def)
  ultimately show ?thesis
    using decode_bad_second_message decode_bad_first_message by simp
qed


section \<open>Claims about the record codec and the channel record\<close>

text \<open>
  C1 fails on the code. The schema gives the field \<open>TX Policy\<close> the mask \<open>0xC0\<close> and the enum
  \<open>{0x00: IMPOLITE, 0x40: POLITE_TO_CC, 0x60: POLITE_TO_ALL}\<close>. Encoding the label
  \<open>POLITE_TO_ALL\<close>, a value of the field's own enum, ORs \<open>0x60\<close> into byte \<open>0x15\<close> of the
  channel record; decoding masks that byte with \<open>0xC0\<close>, finds \<open>0x40\<close> and yields
  \<open>POLITE_TO_CC\<close>. The first equation runs the two channel loop bodies on the sample channel
  with \<open>TX Policy = POLITE_TO_ALL\<close>: byte \<open>0x15\<close> is \<open>0x61\<close> and the decoded channel is the
  sample channel with \<open>POLITE_TO_CC\<close>. The second equation is the same run with
  \<open>POLITE_TO_CC\<close>, which comes back unchanged in every field.
\<close>

theorem polite_to_all_not_round_tripped:
  "bind_e (compile_channel (sample_channel(''TX Policy'' \<mapsto> Str ''POLITE_TO_ALL'')))
     (\<lambda>r. bind_e (decompile_channel r) (\<lambda>c. Inr (r ! 0x15, map c (map fst channel_info))))
   = Inr (0x61, map (sample_channel(''TX Policy'' \<mapsto> Str ''POLITE_TO_CC'')) (map fst channel_info))
   \<and> bind_e (compile_channel sample_channel)
     (\<lambda>r. bind_e (decompile_channel r) (\<lambda>c. Inr (r ! 0x15, map c (map fst channel_info))))
   = Inr (0x41, map sample_channel (map fst channel_info))"
  by (simp add: sample_channel_def channel_eval codec_eval)


text \<open>
  C3, as the specification states it, fails: in a channel, raw tone index 53 with tone type
  DCS decodes to the number 306, the entry of \<open>DCS_Codes\<close> at index 53, and the document holds
  that number, not a string \<open>D<code>N\<close>.
\<close>

theorem channel_dcs_tone_counterexample:
  "bind_e (decompile_channel record_dcs_53) (\<lambda>c. Inr (c ''Tone Type Tx'', c ''Tone Tx''))
     = Inr (Some (Str ''DCS''), Some (Num 306))
   \<and> Some (Num 306) \<noteq> Some (Str ''D017N'')"
  by (simp add: record_dcs_53_def channel_eval codec_eval DCS_Codes_def)


text \<open>
  C3 (amended): in a channel, raw tone index 0 with tone type CTCSS decodes to the first
  CTCSS entry 62.5, and a raw index below 108 with tone type DCS or DCS Invert decodes to the
  number at that index of the DCS table, the polarity staying in the tone type field. In the
  APRS field \<open>AX25 QT/DQT\<close>, raw value 53 decodes to \<open>"D017N"\<close> and encoding \<open>"D017N"\<close> gives
  53 back; every raw value from 53 to 158 decodes to \<open>"D"\<close>, the zero-filled DCS code at
  index \<open>v - 53\<close> and \<open>"N"\<close>, and every raw value from 160 to 267 to the code at index
  \<open>v - 160\<close> between \<open>"D"\<close> and \<open>"I"\<close>.
\<close>

theorem tone_resolution:
  "(channel tk = Some (Str ''CTCSS'') \<and> channel k = Some (Num 0) \<longrightarrow>
      index_to_tone channel tk k = Inr (channel(k \<mapsto> Flt 62.5)))
   \<and> ((channel tk = Some (Str ''DCS'') \<or> channel tk = Some (Str ''DCS Invert''))
        \<and> channel k = Some (Num i) \<and> 0 \<le> i \<and> i < 108 \<longrightarrow>
      (\<exists>c. DCS_Codes ! nat i = Num c \<and> index_to_tone channel tk k = Inr (channel(k \<mapsto> Num c))))
   \<and> (aprs ''AX25 QT/DQT'' = Some (Num 53) \<longrightarrow>
      decode_qt_dqt aprs = Inr (aprs(''AX25 QT/DQT'' \<mapsto> Str ''D017N'')))
   \<and> (aprs ''AX25 QT/DQT'' = Some (Str ''D017N'') \<longrightarrow>
      encode_qt_dqt aprs = Inr (aprs(''AX25 QT/DQT'' \<mapsto> Num 53)))
   \<and> (aprs ''AX25 QT/DQT'' = Some (Num v) \<and> 53 \<le> v \<and> v \<le> 158 \<longrightarrow>
      (\<exists>c. DCS_Codes ! nat (v - 53) = Num c
          \<and> decode_qt_dqt aprs
              = Inr (aprs(''AX25 QT/DQT'' \<mapsto> Str (''D'' @ zfill 3 (str_nat (nat c)) @ ''N'')))))
   \<and> (aprs ''AX25 QT/DQT'' = Some (Num v) \<and> 160 \<le> v \<and> v \<le> 267 \<longrightarrow>
      (\<exists>c. DCS_Codes ! nat (v - 160) = Num c
          \<and> decode_qt_dqt aprs
              = Inr (aprs(''AX25 QT/DQT'' \<mapsto> Str (''D'' @ zfill 3 (str_nat (nat c)) @ ''I'')))))"
proof -
  have 1: "index_to_tone channel tk k = Inr (channel(k \<mapsto> Flt 62.5))"
    if "channel tk = Some (Str ''CTCSS'')" "channel k = Some (Num 0)"
    using that by (simp add: index_to_tone_def getitem_def py_getitem_def CTCSS_Tones_first)
  have 2: "\<exists>c. DCS_Codes ! nat i = Num c \<and> index_to_tone channel tk k = Inr (channel(k \<mapsto> Num c))"
    if t: "channel tk = Some (Str ''DCS'') \<or> channel tk = Some (Str ''DCS Invert'')"
      and i: "channel k = Some (Num i)" "0 \<le> i" "i < 108"
  proof -
    from i have "nat i < 108" by simp
    then obtain c where c: "DCS_Codes ! nat i = Num c"
      using DCS_Codes_nth_Num by blast
    from t i c have "index_to_tone channel tk k = Inr (channel(k \<mapsto> Num c))"
      by (auto simp: index_to_tone_def getitem_def py_getitem_def py_nth_DCS)
    with c show ?thesis by blast
  qed
  have 3: "decode_qt_dqt aprs = Inr (aprs(''AX25 QT/DQT'' \<mapsto> Str ''D017N''))"
    if "aprs ''AX25 QT/DQT'' = Some (Num 53)"
    using that
    by (simp add: decode_qt_dqt_def getitem_def py_nth_def DCS_Codes_def zfill_def str_val_def
        char_eval)
  have 4: "encode_qt_dqt aprs = Inr (aprs(''AX25 QT/DQT'' \<mapsto> Num 53))"
    if "aprs ''AX25 QT/DQT'' = Some (Str ''D017N'')"
    using that
    by (simp add: encode_qt_dqt_def getitem_def endswith_def remove_char_def int_of_string_def
        parse_digits_def is_digit_def py_index_def DCS_Codes_def)
  have 5: "\<exists>c. DCS_Codes ! nat (v - 53) = Num c
          \<and> decode_qt_dqt aprs
              = Inr (aprs(''AX25 QT/DQT'' \<mapsto> Str (''D'' @ zfill 3 (str_nat (nat c)) @ ''N'')))"
    if v: "aprs ''AX25 QT/DQT'' = Some (Num v)" "53 \<le> v" "v \<le> 158"
  proof -
    from v have "nat (v - 53) < 108" by simp
    then obtain c where c: "DCS_Codes ! nat (v - 53) = Num c"
      using DCS_Codes_nth_Num by blast
    from v have "py_nth DCS_Codes (v - 53) = Inr (DCS_Codes ! nat (v - 53))"
      by (intro py_nth_DCS) simp_all
    with v c have "decode_qt_dqt aprs
              = Inr (aprs(''AX25 QT/DQT'' \<mapsto> Str (''D'' @ zfill 3 (str_nat (nat c)) @ ''N'')))"
      by (simp add: decode_qt_dqt_def getitem_def str_val_def)
    with c show ?thesis by blast
  qed
  have 6: "\<exists>c. DCS_Codes ! nat (v - 160) = Num c
          \<and> decode_qt_dqt aprs
              = Inr (aprs(''AX25 QT/DQT'' \<mapsto> Str (''D'' @ zfill 3 (str_nat (nat c)) @ ''I'')))"
    if v: "aprs ''AX25 QT/DQT'' = Some (Num v)" "160 \<le> v" "v \<le> 267"
  proof -
    from v have "nat (v - 160) < 108" by simp
    then obtain c where c: "DCS_Codes ! nat (v - 160) = Num c"
      using DCS_Codes_nth_Num by blast
    from v have "py_nth DCS_Codes (v - 160) = Inr (DCS_Codes ! nat (v - 160))"
      by (intro py_nth_DCS) simp_all
    with v c have "decode_qt_dqt aprs
              = Inr (aprs(''AX25 QT/DQT'' \<mapsto> Str (''D'' @ zfill 3 (str_nat (nat c)) @ ''I'')))"
      by (simp add: decode_qt_dqt_def getitem_def str_val_def)
    with c show ?thesis by blast
  qed
  from 1 2 3 4 5 6 show ?thesis by blast
qed


theorem tone_resolution_witness:
  "index_to_tone [''Tone Type Tx'' \<mapsto> Str ''CTCSS'', ''Tone Tx'' \<mapsto> Num 0] ''Tone Type Tx'' ''Tone Tx''
     = Inr [''Tone Type Tx'' \<mapsto> Str ''CTCSS'', ''Tone Tx'' \<mapsto> Flt 62.5]
   \<and> index_to_tone [''Tone Type Tx'' \<mapsto> Str ''DCS'', ''Tone Tx'' \<mapsto> Num 0] ''Tone Type Tx'' ''Tone Tx''
     = Inr [''Tone Type Tx'' \<mapsto> Str ''DCS'', ''Tone Tx'' \<mapsto> Num 17]
   \<and> decode_qt_dqt [''AX25 QT/DQT'' \<mapsto> Num 53] = Inr [''AX25 QT/DQT'' \<mapsto> Str ''D017N'']
   \<and> encode_qt_dqt [''AX25 QT/DQT'' \<mapsto> Str ''D017N''] = Inr [''AX25 QT/DQT'' \<mapsto> Num 53]
   \<and> decode_qt_dqt [''AX25 QT/DQT'' \<mapsto> Num 160] = Inr [''AX25 QT/DQT'' \<mapsto> Str ''D017I'']"
proof -
  let ?c = "[''Tone Type Tx'' \<mapsto> Str ''CTCSS'', ''Tone Tx'' \<mapsto> Num 0]"
  let ?d = "[''Tone Type Tx'' \<mapsto> Str ''DCS'', ''Tone Tx'' \<mapsto> Num 0]"
  note t = tone_resolution [where channel = "?c" and tk = "''Tone Type Tx''" and k = "''Tone Tx''"
      and aprs = "[''AX25 QT/DQT'' \<mapsto> Num 53]" and v = 53 and i = 0]
  note u = tone_resolution [where channel = "?d" and tk = "''Tone Type Tx''" and k = "''Tone Tx''"
      and aprs = "[''AX25 QT/DQT'' \<mapsto> Str ''D017N'']" and v = 53 and i = 0]
  note w = tone_resolution [where channel = "?d" and tk = "''Tone Type Tx''" and k = "''Tone Tx''"
      and aprs = "[''AX25 QT/DQT'' \<mapsto> Num 160]" and v = 160 and i = 0]
  have n0: "DCS_Codes ! nat 0 = Num 17" "DCS_Codes ! nat (160 - 160) = Num 17"
    by (simp_all add: DCS_Codes_def)
  have z: "''D'' @ zfill 3 (str_nat (nat 17)) @ ''I'' = ''D017I''"
    by (simp add: zfill_def char_eval)
  have a: "index_to_tone ?c ''Tone Type Tx'' ''Tone Tx'' = Inr (?c(''Tone Tx'' \<mapsto> Flt 62.5))"
    using t by simp
  have b: "index_to_tone ?d ''Tone Type Tx'' ''Tone Tx'' = Inr (?d(''Tone Tx'' \<mapsto> Num 17))"
    using u n0 by auto
  have c: "decode_qt_dqt [''AX25 QT/DQT'' \<mapsto> Num 53] = Inr [''AX25 QT/DQT'' \<mapsto> Str ''D017N'']"
    using t by simp
  have d: "encode_qt_dqt [''AX25 QT/DQT'' \<mapsto> Str ''D017N''] = Inr [''AX25 QT/DQT'' \<mapsto> Num 53]"
    using u by simp
  have e: "decode_qt_dqt [''AX25 QT/DQT'' \<mapsto> Num 160] = Inr [''AX25 QT/DQT'' \<mapsto> Str ''D017I'']"
    using w n0 z by auto
  from a b c d e show ?thesis by simp
qed

text \<open>
  C4: let \<open>channel\<close> be the channel decoded from the 32-byte record \<open>channel_data\<close>, \<open>raw\<close>
  the plain parse of the record with \<open>channel_info\<close> and \<open>flags\<close> its parse with \<open>tson_info\<close>.
  When the decoded Rx and Tx frequencies differ, both timeslot fields are the parsed
  \<open>TS1\<close>/\<open>TS2\<close> values, whatever the flags hold. When the frequencies are equal and a flag is
  \<open>ON\<close>, the corresponding timeslot field is \<open>"ON"\<close>. A flag is \<open>ON\<close> exactly when its bit of
  byte \<open>0x1D\<close> (\<open>0x01\<close> for Rx, \<open>0x04\<close> for Tx) is clear: \<open>tson_info\<close> maps \<open>0x00\<close> to \<open>"ON"\<close>.
\<close>

theorem timeslot_derivation_decode:
  assumes dec: "decompile_channel channel_data = Inr channel"
    and raw: "fromBytes channel_info channel_data = Inr raw"
    and flags: "fromBytes tson_info channel_data = Inr flags"
  shows "(channel ''Rx Freq'' \<noteq> channel ''Tx Freq'' \<longrightarrow>
            channel ''TS Rx'' = raw ''TS Rx'' \<and> channel ''TS Tx'' = raw ''TS Tx''
          \<and> channel ''TS Rx'' \<in> {Some (Str ''TS1''), Some (Str ''TS2'')}
          \<and> channel ''TS Tx'' \<in> {Some (Str ''TS1''), Some (Str ''TS2'')})
       \<and> (channel ''Rx Freq'' = channel ''Tx Freq'' \<and> flags ''TS Rx ON'' = Some (Str ''ON'') \<longrightarrow>
            channel ''TS Rx'' = Some (Str ''ON''))
       \<and> (channel ''Rx Freq'' = channel ''Tx Freq'' \<and> flags ''TS Tx ON'' = Some (Str ''ON'') \<longrightarrow>
            channel ''TS Tx'' = Some (Str ''ON''))
       \<and> (flags ''TS Rx ON'' = Some (Str ''ON'')) = (unat (channel_data ! 0x1D) AND 0x01 = 0)
       \<and> (flags ''TS Tx ON'' = Some (Str ''ON'')) = (unat (channel_data ! 0x1D) AND 0x04 = 0)"
proof -
  from channel_freqs [OF raw] obtain a b where
    ab: "raw ''Rx Freq'' = Some (Num a)" "raw ''Tx Freq'' = Some (Num b)" by blast
  note fl = tson_flags [OF flags]
  let ?c2 = "if a \<noteq> b then raw
             else (if (if unat (channel_data ! 0x1D) AND 0x04 = 0 then ''ON'' else ''OFF'') = ''ON''
                   then (if (if unat (channel_data ! 0x1D) AND 0x01 = 0 then ''ON'' else ''OFF'') = ''ON''
                         then raw(''TS Rx'' \<mapsto> Str ''ON'') else raw)(''TS Tx'' \<mapsto> Str ''ON'')
                   else (if (if unat (channel_data ! 0x1D) AND 0x01 = 0 then ''ON'' else ''OFF'') = ''ON''
                         then raw(''TS Rx'' \<mapsto> Str ''ON'') else raw))"
  have ov: "tson_override raw flags = Inr ?c2"
    by (rule tson_override_result [OF ab fl])
  from dec raw flags ov obtain c3 where
    c3: "index_to_tone ?c2 ''Tone Type Tx'' ''Tone Tx'' = Inr c3" and
    ch: "index_to_tone c3 ''Tone Type Rx'' ''Tone Rx'' = Inr channel"
    by (auto simp: decompile_channel_def bind_e_eq_Inr)
  have keep: "channel key = ?c2 key" if "key \<noteq> ''Tone Tx''" "key \<noteq> ''Tone Rx''" for key
    using index_to_tone_other [OF ch that(2)] index_to_tone_other [OF c3 that(1)] by simp
  have k1: "channel ''Rx Freq'' = ?c2 ''Rx Freq''" by (rule keep) simp_all
  have k2: "channel ''Tx Freq'' = ?c2 ''Tx Freq''" by (rule keep) simp_all
  have k3: "channel ''TS Rx'' = ?c2 ''TS Rx''" by (rule keep) simp_all
  have k4: "channel ''TS Tx'' = ?c2 ''TS Tx''" by (rule keep) simp_all
  have f1: "channel ''Rx Freq'' = Some (Num a)" using k1 ab by simp
  have f2: "channel ''Tx Freq'' = Some (Num b)" using k2 ab by simp
  show ?thesis
    using channel_ts_rx [OF raw] channel_ts_tx [OF raw] fl
    unfolding k3 k4 f1 f2
    by auto
qed

theorem timeslot_derivation_decode_witness:
  "(\<exists>channel raw flags.
      decompile_channel record_duplex_forced_on = Inr channel
    \<and> fromBytes channel_info record_duplex_forced_on = Inr raw
    \<and> fromBytes tson_info record_duplex_forced_on = Inr flags
    \<and> channel ''Rx Freq'' \<noteq> channel ''Tx Freq''
    \<and> flags ''TS Rx ON'' = Some (Str ''ON'') \<and> flags ''TS Tx ON'' = Some (Str ''ON'')
    \<and> channel ''TS Rx'' = Some (Str ''TS1'') \<and> channel ''TS Tx'' = Some (Str ''TS2''))
   \<and> (\<exists>channel raw flags.
      decompile_channel record_simplex_forced_on = Inr channel
    \<and> fromBytes channel_info record_simplex_forced_on = Inr raw
    \<and> fromBytes tson_info record_simplex_forced_on = Inr flags
    \<and> channel ''Rx Freq'' = channel ''Tx Freq''
    \<and> flags ''TS Rx ON'' = Some (Str ''ON'') \<and> flags ''TS Tx ON'' = Some (Str ''ON'')
    \<and> raw ''TS Rx'' = Some (Str ''TS1'') \<and> raw ''TS Tx'' = Some (Str ''TS2'')
    \<and> channel ''TS Rx'' = Some (Str ''ON'') \<and> channel ''TS Tx'' = Some (Str ''ON''))"
proof -
  have d1: "bind_e (decompile_channel record_duplex_forced_on)
              (\<lambda>c. Inr (c ''Rx Freq'', c ''Tx Freq'', c ''TS Rx'', c ''TS Tx''))
            = Inr (Some (Num 43900000), Some (Num 43000000), Some (Str ''TS1''), Some (Str ''TS2''))"
    by (simp add: record_duplex_forced_on_def channel_eval codec_eval)
  have r1: "\<exists>raw. fromBytes channel_info record_duplex_forced_on = Inr raw"
    by (simp add: record_duplex_forced_on_def channel_eval codec_eval)
  have f1: "bind_e (fromBytes tson_info record_duplex_forced_on)
              (\<lambda>f. Inr (f ''TS Rx ON'', f ''TS Tx ON''))
            = Inr (Some (Str ''ON''), Some (Str ''ON''))"
    by (simp add: record_duplex_forced_on_def channel_eval codec_eval)
  have d2: "bind_e (decompile_channel record_simplex_forced_on)
              (\<lambda>c. Inr (c ''Rx Freq'', c ''Tx Freq'', c ''TS Rx'', c ''TS Tx''))
            = Inr (Some (Num 43900000), Some (Num 43900000), Some (Str ''ON''), Some (Str ''ON''))"
    by (simp add: record_simplex_forced_on_def channel_eval codec_eval)
  have r2: "bind_e (fromBytes channel_info record_simplex_forced_on)
              (\<lambda>c. Inr (c ''TS Rx'', c ''TS Tx''))
            = Inr (Some (Str ''TS1''), Some (Str ''TS2''))"
    by (simp add: record_simplex_forced_on_def channel_eval codec_eval)
  have f2: "bind_e (fromBytes tson_info record_simplex_forced_on)
              (\<lambda>f. Inr (f ''TS Rx ON'', f ''TS Tx ON''))
            = Inr (Some (Str ''ON''), Some (Str ''ON''))"
    by (simp add: record_simplex_forced_on_def channel_eval codec_eval)
  from d1 obtain c1 where c1: "decompile_channel record_duplex_forced_on = Inr c1"
    and v1: "c1 ''Rx Freq'' = Some (Num 43900000)" "c1 ''Tx Freq'' = Some (Num 43000000)"
      "c1 ''TS Rx'' = Some (Str ''TS1'')" "c1 ''TS Tx'' = Some (Str ''TS2'')"
    by (auto simp: bind_e_eq_Inr)
  from r1 obtain raw1 where raw1: "fromBytes channel_info record_duplex_forced_on = Inr raw1"
    by blast
  from f1 obtain fl1 where fl1: "fromBytes tson_info record_duplex_forced_on = Inr fl1"
    and w1: "fl1 ''TS Rx ON'' = Some (Str ''ON'')" "fl1 ''TS Tx ON'' = Some (Str ''ON'')"
    by (auto simp: bind_e_eq_Inr)
  from d2 obtain c2 where c2: "decompile_channel record_simplex_forced_on = Inr c2"
    and v2: "c2 ''Rx Freq'' = Some (Num 43900000)" "c2 ''Tx Freq'' = Some (Num 43900000)"
    by (auto simp: bind_e_eq_Inr)
  from r2 obtain raw2 where raw2: "fromBytes channel_info record_simplex_forced_on = Inr raw2"
    and u2: "raw2 ''TS Rx'' = Some (Str ''TS1'')" "raw2 ''TS Tx'' = Some (Str ''TS2'')"
    by (auto simp: bind_e_eq_Inr)
  from f2 obtain fl2 where fl2: "fromBytes tson_info record_simplex_forced_on = Inr fl2"
    and w2: "fl2 ''TS Rx ON'' = Some (Str ''ON'')" "fl2 ''TS Tx ON'' = Some (Str ''ON'')"
    by (auto simp: bind_e_eq_Inr)
  have a: "c1 ''Rx Freq'' \<noteq> c1 ''Tx Freq''" using v1 by simp
  have b: "c2 ''Rx Freq'' = c2 ''Tx Freq''" using v2 by simp
  from timeslot_derivation_decode [OF c2 raw2 fl2] b w2
  have on: "c2 ''TS Rx'' = Some (Str ''ON'')" "c2 ''TS Tx'' = Some (Str ''ON'')"
    by simp_all
  from timeslot_derivation_decode [OF c1 raw1 fl1] a
  have lit: "c1 ''TS Rx'' = raw1 ''TS Rx''" by simp
  show ?thesis
    using c1 raw1 fl1 a w1 v1 lit c2 raw2 fl2 b w2 u2 on by blast
qed

text \<open>
  C5 fails on the code. The encoder sets both flags to OFF, repeats that when the
  frequencies differ, and only afterwards overrides a flag to ON when the timeslot field
  is \<open>"ON"\<close>: the override wins. On the sample channel, whose Rx and Tx frequencies differ,
  with both timeslot fields \<open>"ON"\<close>, the flags computed by the loop body are ON, and the
  record parses back with both flags ON (bits \<open>0x01\<close> and \<open>0x04\<close> of byte \<open>0x1D\<close> clear).
\<close>

theorem duplex_on_sentinel_sets_flag:
  "sample_channel ''Rx Freq'' \<noteq> sample_channel ''Tx Freq''
   \<and> bind_e (compile_channel (sample_channel(''TS Rx'' \<mapsto> Str ''ON'', ''TS Tx'' \<mapsto> Str ''ON'')))
       (\<lambda>r. bind_e (fromBytes tson_info r) (\<lambda>f.
          Inr (f ''TS Rx ON'', f ''TS Tx ON'', unat (r ! 0x1D) AND 0x05)))
     = Inr (Some (Str ''ON''), Some (Str ''ON''), 0)
   \<and> bind_e (compile_tson (sample_channel(''TS Rx'' \<mapsto> Str ''ON'', ''TS Tx'' \<mapsto> Str ''ON'')))
       (\<lambda>t. Inr (t ''TS Rx ON'', t ''TS Tx ON''))
     = Inr (Some (Str ''ON''), Some (Str ''ON''))"
  by (simp add: sample_channel_def channel_eval codec_eval)

text \<open>
  C7, as the specification states it, fails for MaskNum fields: the sample channel with
  \<open>RX CC = 300\<close>, which does not fit the mask \<open>0x0F\<close>, encodes without error; byte \<open>0x15\<close>
  receives \<open>300 AND 0x0F = 12\<close> (next to \<open>0x40\<close> of TX Policy) and decodes as \<open>RX CC = 12\<close>.
\<close>

theorem masked_number_overflow_counterexample:
  "toBytes (replicate 32 0) channel_info (sample_channel(''RX CC'' \<mapsto> Num 300))
     = Inr [1, 0, 67, 72, 49, 0, 0, 0, 0, 0, 0, 0, 96, 220, 157, 2, 192, 32, 144, 2,
            0x60, 0x4C, 0, 0, 0, 0, 0, 0, 0, 0x12, 1, 0]
   \<and> bind_e (fromBytes channel_info
        [1, 0, 67, 72, 49, 0, 0, 0, 0, 0, 0, 0, 96, 220, 157, 2, 192, 32, 144, 2,
         0x60, 0x4C, 0, 0, 0, 0, 0, 0, 0, 0x12, 1, 0]) (\<lambda>c. Inr (c ''RX CC''))
     = Inr (Some (Num 12))"
  by (simp add: sample_channel_def channel_eval codec_eval)


text \<open>
  C7 (amended): for a field whose document value is the integer \<open>n\<close>. If the field is a
  Number of \<open>len\<close> bytes and \<open>n\<close> is negative or at least \<open>256 ^ len\<close>, encoding the field
  raises OverflowError and \<open>toBytes\<close> on any schema holding the field fails. If the field is
  a MaskNum with a mask below 256 at an offset inside the buffer, encoding never fails for
  the size of \<open>n\<close>: the value (after the encode lambda, when there is one and it returns
  \<open>m\<close>) is masked and ORed into the byte, the bits outside the mask being dropped.
\<close>

theorem numeric_width_handling:
  assumes "item key = Some (Num n)"
  shows "((key, Number off len) \<in> set defs \<and> (n < 0 \<or> 256 ^ len \<le> n) \<longrightarrow>
            (\<exists>e. toBytes data defs item = Inl e))
       \<and> (n < 0 \<or> 256 ^ len \<le> n \<longrightarrow>
            encode_field (Number off len) data item key = Inl OverflowError)
       \<and> (moff < length data \<and> msk < 256 \<longrightarrow>
            encode_field (MaskNum moff msk None) data item key
              = Inr (data[moff := data ! moff OR word_of_int (n AND int msk)]))
       \<and> (moff < length data \<and> msk < 256 \<and> enc (Num n) = Inr m \<longrightarrow>
            encode_field (MaskNum moff msk (Some (dec, enc))) data item key
              = Inr (data[moff := data ! moff OR word_of_int (m AND int msk)]))"
proof -
  have 1: "\<exists>e. toBytes data defs item = Inl e"
    if "(key, Number off len) \<in> set defs" "n < 0 \<or> 256 ^ len \<le> n"
  proof -
    have "encode_field (Number off len) d' item key = Inl OverflowError" for d'
      using assms that(2) by (rule encode_number_overflow)
    with that(1) show ?thesis by (rule toBytes_fails_on_field)
  qed
  have 2: "encode_field (Number off len) data item key = Inl OverflowError"
    if "n < 0 \<or> 256 ^ len \<le> n"
    using assms that by (rule encode_number_overflow)
  have 3: "encode_field (MaskNum moff msk None) data item key
              = Inr (data[moff := data ! moff OR word_of_int (n AND int msk)])"
    if "moff < length data" "msk < 256"
    using that assms masked_in_range [OF that(2), of n]
    by (simp add: getitem_def or_byte_in_range)
  have 4: "encode_field (MaskNum moff msk (Some (dec, enc))) data item key
              = Inr (data[moff := data ! moff OR word_of_int (m AND int msk)])"
    if "moff < length data" "msk < 256" "enc (Num n) = Inr m"
    using that assms masked_in_range [OF that(2), of m]
    by (simp add: getitem_def or_byte_in_range)
  from 1 2 3 4 show ?thesis by blast
qed


theorem numeric_width_handling_witness:
  "(\<exists>e. toBytes (replicate 32 0) channel_info (sample_channel(''Tone Tx'' \<mapsto> Num 300)) = Inl e)
   \<and> encode_field (Number 0x1C 1) (replicate 32 0) (sample_channel(''Tone Tx'' \<mapsto> Num 300)) ''Tone Tx''
       = Inl OverflowError
   \<and> encode_field (MaskNum 0x15 0x0F None) (replicate 32 0) (sample_channel(''Tone Tx'' \<mapsto> Num 300))
        ''Tone Tx'' = Inr ((replicate 32 0)[0x15 := 12])
   \<and> encode_field (MaskNum 0x1D 0xF0 (Some (\<lambda>x. drop_bit 4 x, enc_shl4))) (replicate 32 0)
        (sample_channel(''Tone Tx'' \<mapsto> Num 300)) ''Tone Tx'' = Inr ((replicate 32 0)[0x1D := 0xC0])"
proof -
  let ?item = "sample_channel(''Tone Tx'' \<mapsto> Num 300)"
  have k: "?item ''Tone Tx'' = Some (Num 300)" by simp
  have m: "(''Tone Tx'', Number 0x1C 1) \<in> set channel_info"
    by (simp add: channel_info_def)
  have o: "(300::int) < 0 \<or> 256 ^ 1 \<le> (300::int)" by simp
  have l: "(0x15::nat) < length (replicate 32 (0::byte)) \<and> (0x0F::nat) < 256" by simp
  have l2: "(0x1D::nat) < length (replicate 32 (0::byte)) \<and> (0xF0::nat) < 256
     \<and> enc_shl4 (Num 300) = Inr 4800"
    by (simp add: enc_shl4_def)
  note t1 = numeric_width_handling [where item = "?item" and key = "''Tone Tx''" and n = 300
      and off = "0x1C" and len = 1 and defs = channel_info and data = "replicate 32 0"
      and moff = "0x15" and msk = "0x0F", OF k]
  note t2 = numeric_width_handling [where item = "?item" and key = "''Tone Tx''" and n = 300
      and off = "0x1C" and len = 1 and defs = channel_info and data = "replicate 32 0"
      and moff = "0x1D" and msk = "0xF0" and enc = enc_shl4 and m = 4800
      and dec = "\<lambda>x. drop_bit 4 x", OF k]
  have a: "\<exists>e. toBytes (replicate 32 0) channel_info ?item = Inl e"
    using t1 m o by blast
  have b: "encode_field (Number 0x1C 1) (replicate 32 0) ?item ''Tone Tx'' = Inl OverflowError"
    using t1 o by blast
  have c: "encode_field (MaskNum 0x15 0x0F None) (replicate 32 0) ?item ''Tone Tx''
      = Inr ((replicate 32 0)[0x15 := (replicate 32 0) ! 0x15 OR word_of_int (300 AND int 0x0F)])"
    using t1 l by blast
  have d: "encode_field (MaskNum 0x1D 0xF0 (Some (\<lambda>x. drop_bit 4 x, enc_shl4))) (replicate 32 0)
        ?item ''Tone Tx''
      = Inr ((replicate 32 0)[0x1D := (replicate 32 0) ! 0x1D OR word_of_int (4800 AND int 0xF0)])"
    using t2 l2 by blast
  have c': "((replicate 32 0) ! 0x15 OR word_of_int (300 AND int 0x0F) :: byte) = 12" by simp
  have d': "((replicate 32 0) ! 0x1D OR word_of_int (4800 AND int 0xF0) :: byte) = 0xC0" by simp
  from a b c d show ?thesis
    unfolding c' d' by auto
qed
end
